theory Spec2Isabelle
  imports Main
begin

section \<open>Data model\<close>

text \<open>
  A shallow embedding of \<^verbatim>\<open>chrome-launcher.ts\<close>: the \<^verbatim>\<open>Launcher\<close> class, the
  instance registry and the facade functions \<^verbatim>\<open>launch\<close> and \<^verbatim>\<open>killAll\<close>.
  Every asynchronous function is run as one step. A synchronous function that can throw
  returns a sum, \<open>Inl\<close> the exception. An asynchronous function returns an \<open>outcome\<close>:
  its promise resolves, rejects, or never settles (it stays pending, or the Node process
  dies of an uncaught exception first). The mutated objects are returned together with
  the outcome, since a \<^verbatim>\<open>Launcher\<close> keeps the fields it has assigned when a later
  statement throws. Log output is left out.
\<close>

datatype platform = Darwin | Linux | Win32 | Wsl | OtherPlatform

datatype error =
    InvalidUserDataDirectoryError
  | UnsupportedPlatformError
  | ChromeNotInstalledError
  | ConnectionError
  | FsError string
  | TypeError string
  | Error string

datatype 'a outcome = Resolved 'a | Rejected error | Unsettled

datatype user_data_dir = Path string | Flag bool

datatype starting_url = Url string | Urls "string list"

text \<open>
  \<^verbatim>\<open>interface Options\<close>. Every field is optional (\<open>None\<close> is \<^verbatim>\<open>undefined\<close>).
  The compiled \<^verbatim>\<open>dist/chrome-launcher.js\<close> accepts a list of starting URLs as well as
  a single one; \<open>starting_url\<close> covers both. The log level and the environment
  variables handed to the child are left out, as are the injected \<^verbatim>\<open>fs\<close> and
  \<^verbatim>\<open>spawn\<close> modules of the launcher: the file system and the process table are the
  world below.
\<close>

record Options =
  opt_startingUrl :: "starting_url option"
  opt_chromeFlags :: "string list option"
  opt_prefs :: "(string \<times> string) list option"
  opt_port :: "nat option"
  opt_handleSIGINT :: "bool option"
  opt_chromePath :: "string option"
  opt_userDataDir :: "user_data_dir option"
  opt_ignoreDefaultFlags :: "bool option"
  opt_connectionPollInterval :: "int option"
  opt_maxConnectionRetries :: "int option"

text \<open>A \<^verbatim>\<open>ChildProcess\<close>: its pid is \<^verbatim>\<open>undefined\<close> when the process could not be started.\<close>

record child =
  cpid :: "nat option"

text \<open>The fields of \<^verbatim>\<open>class Launcher\<close>.\<close>

record launcher =
  opts :: Options
  tmpDirandPidFileReady :: bool
  pidFile :: "string option"
  startingUrl :: "string list"
  outFile :: "nat option"
  errFile :: "nat option"
  chromePath :: "string option"
  ignoreDefaultFlags :: bool
  chromeFlags :: "string list"
  prefs :: "(string \<times> string) list"
  requestedPort :: nat
  connectionPollInterval :: int
  maxConnectionRetries :: int
  useDefaultProfile :: bool
  chrome :: "child option"
  userDataDir :: "string option"
  port :: "nat option"
  pid :: "nat option"

subsection \<open>The world outside the launcher\<close>

text \<open>Every call that leaves the process is recorded, in order.\<close>

datatype event =
    Connect "nat option"
  | Delay int
  | MkTmp string
  | Open string nat
  | Close nat
  | Write string string
  | Read string
  | RandomPort nat
  | Spawn string "string list" "nat option" "nat option"
  | Exec string
  | Signal int
  | Rm string

record world =
  dirs :: "string list"
  files :: "string \<Rightarrow> string option"
  openFds :: "nat list"
  trace :: "event list"

text \<open>
  The collaborators that are imported from other modules (\<^verbatim>\<open>./utils\<close>, \<^verbatim>\<open>./flags\<close>,
  \<^verbatim>\<open>./random-port\<close>, \<^verbatim>\<open>./chrome-finder\<close>) and the answers of the operating system
  are parameters of the model. \<open>darwinFast\<close> and \<open>installations\<close> are what
  \<^verbatim>\<open>chromeFinder.darwinFast()\<close> and the finder of the current platform return.
  \<open>connects\<close> says whether a TCP connect to \<^verbatim>\<open>127.0.0.1:port\<close> succeeds in a given
  world; \<open>spawn_pid\<close> is the pid of the process started at a given moment, \<open>None\<close>
  when it could not be started; \<open>process_kill\<close> and \<open>execSync\<close> return the message of
  the exception they raise, if any; \<open>uncaughtExceptionHandler\<close> says whether the host
  program listens for \<^verbatim>\<open>uncaughtException\<close>.
\<close>

record env =
  getPlatform :: platform
  DEFAULT_FLAGS :: "string list"
  toWin32Path :: "string option \<Rightarrow> string"
  darwinFast :: "string option"
  installations :: "string list"
  tmpDirName :: "nat \<Rightarrow> string"
  randomPort :: "nat \<Rightarrow> nat"
  connects :: "world \<Rightarrow> nat \<Rightarrow> bool"
  spawn_pid :: "nat \<Rightarrow> nat option"
  process_kill :: "int \<Rightarrow> string option"
  execSync :: "string \<Rightarrow> string option"
  JSON_parse :: "string \<Rightarrow> (string \<times> string) list option"
  JSON_stringify :: "(string \<times> string) list \<Rightarrow> string"
  uncaughtExceptionHandler :: bool

definition isWsl :: "env \<Rightarrow> bool" where
  "isWsl E = (getPlatform E = Wsl)"

definition isWindows :: "env \<Rightarrow> bool" where
  "isWindows E = (getPlatform E = Win32)"

definition SUPPORTED_PLATFORMS :: "platform list" where
  "SUPPORTED_PLATFORMS = [Darwin, Linux, Win32, Wsl]"

definition SIGINT_EXIT_CODE :: nat where
  "SIGINT_EXIT_CODE = 130"

subsection \<open>JavaScript values\<close>

text \<open>
  Modelled from the spec: \<^verbatim>\<open>defaults\<close> of \<^verbatim>\<open>./utils\<close> is not in the sources; the
  spec calls it boolean-default resolution, "fills unset \<^verbatim>\<open>handleSIGINT\<close> with true".
\<close>

definition defaults :: "'a option \<Rightarrow> 'a \<Rightarrow> 'a" where
  "defaults val dflt = (case val of None \<Rightarrow> dflt | Some v \<Rightarrow> v)"

text \<open>Truthiness of an optional string and of an optional number.\<close>

definition truthy_str :: "string option \<Rightarrow> bool" where
  "truthy_str v = (case v of None \<Rightarrow> False | Some s \<Rightarrow> s \<noteq> [])"

definition truthy_num :: "nat option \<Rightarrow> bool" where
  "truthy_num v = (case v of None \<Rightarrow> False | Some n \<Rightarrow> n \<noteq> 0)"

definition digit_char :: "nat \<Rightarrow> char" where
  "digit_char d = ''0123456789'' ! d"

function string_of_nat :: "nat \<Rightarrow> string" where
  "string_of_nat n =
     (if n < 10 then [digit_char n] else string_of_nat (n div 10) @ [digit_char (n mod 10)])"
  by pat_completeness auto
termination
  by (relation "measure id") auto

declare string_of_nat.simps [simp del]

text \<open>A value inside a template literal: \<^verbatim>\<open>undefined\<close> prints as its name.\<close>

definition show_num :: "nat option \<Rightarrow> string" where
  "show_num v = (case v of None \<Rightarrow> ''undefined'' | Some n \<Rightarrow> string_of_nat n)"

definition show_str :: "string option \<Rightarrow> string" where
  "show_str v = (case v of None \<Rightarrow> ''undefined'' | Some s \<Rightarrow> s)"

subsection \<open>File system, network and timer\<close>

definition emit :: "event \<Rightarrow> world \<Rightarrow> world" where
  "emit e w = w\<lparr>trace := trace w @ [e]\<rparr>"

definition now :: "world \<Rightarrow> nat" where
  "now w = length (trace w)"

text \<open>The path of a file is its directory, a slash and its name.\<close>

definition in_dir :: "string \<Rightarrow> string \<Rightarrow> string" where
  "in_dir d name = d @ ''/'' @ name"

definition under :: "string \<Rightarrow> string \<Rightarrow> bool" where
  "under d p = (p = d \<or> take (length d + 1) p = d @ ''/'')"

definition fresh_fd :: "nat list \<Rightarrow> nat" where
  "fresh_fd fds = Suc (fold max fds 2)"

text \<open>
  \<^verbatim>\<open>makeTmpDir()\<close> of \<^verbatim>\<open>./utils\<close> creates a directory and returns its path.
\<close>

definition makeTmpDir :: "env \<Rightarrow> world \<Rightarrow> string \<times> world" where
  "makeTmpDir E w =
     (let d = tmpDirName E (now w)
      in (d, emit (MkTmp d) (w\<lparr>dirs := dirs w @ [d]\<rparr>)))"

text \<open>
  \<^verbatim>\<open>fs.openSync(dir/name, 'a')\<close>: the file is created when it is missing; the call
  throws when the directory does not exist.
\<close>

definition openSync :: "string \<Rightarrow> string \<Rightarrow> world \<Rightarrow> (error + nat) \<times> world" where
  "openSync d name w =
     (if d \<in> set (dirs w)
      then (let fd = fresh_fd (openFds w); p = in_dir d name
            in (Inr fd,
                emit (Open p fd)
                  (w\<lparr>openFds := openFds w @ [fd],
                      files := (files w)(p := Some (case files w p of None \<Rightarrow> [] | Some c \<Rightarrow> c))\<rparr>)))
      else (Inl (FsError (in_dir d name)), w))"

definition closeSync :: "nat \<Rightarrow> world \<Rightarrow> world" where
  "closeSync fd w = emit (Close fd) (w\<lparr>openFds := removeAll fd (openFds w)\<rparr>)"

definition writeFileSync :: "string \<Rightarrow> string \<Rightarrow> world \<Rightarrow> world" where
  "writeFileSync p content w = emit (Write p content) (w\<lparr>files := (files w)(p := Some content)\<rparr>)"

definition existsSync :: "string \<Rightarrow> world \<Rightarrow> bool" where
  "existsSync p w = (files w p \<noteq> None)"

text \<open>\<^verbatim>\<open>fs.readFileSync\<close> throws when the file does not exist.\<close>

definition readFileSync :: "string \<Rightarrow> world \<Rightarrow> (error + string) \<times> world" where
  "readFileSync p w =
     (case files w p of
        None \<Rightarrow> (Inl (FsError p), emit (Read p) w)
      | Some content \<Rightarrow> (Inr content, emit (Read p) w))"

text \<open>\<^verbatim>\<open>fs.rm(dir, {recursive: true}, cb)\<close>: the directory and everything below it go.\<close>

definition rm :: "string \<Rightarrow> world \<Rightarrow> world" where
  "rm d w =
     emit (Rm d)
       (w\<lparr>dirs := filter (\<lambda>p. \<not> under d p) (dirs w),
           files := (\<lambda>p. if under d p then None else files w p)\<rparr>)"

text \<open>
  Modelled from the spec: \<^verbatim>\<open>delay\<close> of \<^verbatim>\<open>./utils\<close> is not in the sources; the spec
  gives \<open>delay(milliseconds)\<close> as a suspension point resolving after the given time.
\<close>

definition delay :: "int \<Rightarrow> world \<Rightarrow> world" where
  "delay ms w = emit (Delay ms) w"

definition getRandomPort :: "env \<Rightarrow> world \<Rightarrow> nat \<times> world" where
  "getRandomPort E w = (let p = randomPort E (now w) in (p, emit (RandomPort p) w))"

definition spawn :: "env \<Rightarrow> string \<Rightarrow> string list \<Rightarrow> nat option \<Rightarrow> nat option \<Rightarrow> world \<Rightarrow> child \<times> world" where
  "spawn E execPath args out err w =
     (\<lparr>cpid = spawn_pid E (now w)\<rparr>, emit (Spawn execPath args out err) w)"

section \<open>The Launcher class\<close>

text \<open>
  The static \<^verbatim>\<open>getFirstInstallation\<close>: \<^verbatim>\<open>darwinFast()\<close> on macOS, otherwise the first
  element of what the platform's finder returns. On a platform that has no finder,
  \<^verbatim>\<open>chromeFinder[getPlatform()]\<close> is \<^verbatim>\<open>undefined\<close> and calling it throws a TypeError.
\<close>

definition getFirstInstallation :: "env \<Rightarrow> error + string option" where
  "getFirstInstallation E =
     (if getPlatform E = Darwin then Inr (darwinFast E)
      else if getPlatform E \<in> set SUPPORTED_PLATFORMS
      then Inr (case installations E of [] \<Rightarrow> None | i # rest \<Rightarrow> Some i)
      else Inl (TypeError ''chromeFinder[getPlatform(...)] is not a function''))"

definition one_or_many :: "starting_url \<Rightarrow> string list" where
  "one_or_many u = (case u of Url s \<Rightarrow> [s] | Urls ss \<Rightarrow> ss)"

definition Launcher_constructor :: "Options \<Rightarrow> error + launcher" where
  "Launcher_constructor opt =
     (let this = \<lparr>opts = opt,
                  tmpDirandPidFileReady = False,
                  pidFile = None,
                  startingUrl = one_or_many (defaults (opt_startingUrl opt) (Url ''about:blank'')),
                  outFile = None,
                  errFile = None,
                  chromePath = opt_chromePath opt,
                  ignoreDefaultFlags = defaults (opt_ignoreDefaultFlags opt) False,
                  chromeFlags = defaults (opt_chromeFlags opt) [],
                  prefs = defaults (opt_prefs opt) [],
                  requestedPort = defaults (opt_port opt) 0,
                  connectionPollInterval = defaults (opt_connectionPollInterval opt) 500,
                  maxConnectionRetries = defaults (opt_maxConnectionRetries opt) 50,
                  useDefaultProfile = False,
                  chrome = None,
                  userDataDir = None,
                  port = None,
                  pid = None\<rparr>
      in case opt_userDataDir opt of
           Some (Flag b) \<Rightarrow>
             if \<not> b then Inr (this\<lparr>useDefaultProfile := True, userDataDir := None\<rparr>)
             else Inl InvalidUserDataDirectoryError
         | Some (Path p) \<Rightarrow> Inr (this\<lparr>useDefaultProfile := False, userDataDir := Some p\<rparr>)
         | None \<Rightarrow> Inr (this\<lparr>useDefaultProfile := False, userDataDir := None\<rparr>))"

text \<open>The getter \<^verbatim>\<open>flags\<close>: an array that grows by \<^verbatim>\<open>push\<close>.\<close>

definition push :: "'a list \<Rightarrow> 'a list \<Rightarrow> 'a list" where
  "push arr items = arr @ items"

definition flags :: "env \<Rightarrow> launcher \<Rightarrow> string list" where
  "flags E this =
     (let fl0 = (if ignoreDefaultFlags this then [] else DEFAULT_FLAGS E);
          fl1 = push fl0 [''--remote-debugging-port='' @ show_num (port this)];
          fl2 = (if \<not> ignoreDefaultFlags this \<and> getPlatform E = Linux
                 then push fl1 [''--disable-setuid-sandbox''] else fl1);
          fl3 = (if \<not> useDefaultProfile this
                 then push fl2 [''--user-data-dir='' @
                        (if isWsl E then toWin32Path E (userDataDir this)
                         else show_str (userDataDir this))]
                 else fl2);
          fl4 = push fl3 (chromeFlags this);
          fl5 = push fl4 (startingUrl this)
      in fl5)"

text \<open>
  \<^verbatim>\<open>setBrowserPrefs\<close>: the object spread \<^verbatim>\<open>{...content, ...this.prefs}\<close> keeps every
  key of \<open>content\<close> at its position, with the value of \<open>prefs\<close> where \<open>prefs\<close> has the
  key, and then takes the keys that only \<open>prefs\<close> has. A file that cannot be read or
  does not parse is caught and logged.
\<close>

definition spread :: "(string \<times> string) list \<Rightarrow> (string \<times> string) list \<Rightarrow> (string \<times> string) list" where
  "spread content over =
     map (\<lambda>kv. (fst kv, case map_of over (fst kv) of None \<Rightarrow> snd kv | Some v \<Rightarrow> v)) content
     @ filter (\<lambda>kv. fst kv \<notin> fst ` set content) over"

definition setBrowserPrefs :: "env \<Rightarrow> launcher \<Rightarrow> world \<Rightarrow> world" where
  "setBrowserPrefs E this w =
     (if prefs this = [] then w
      else (let preferenceFile = in_dir (show_str (userDataDir this)) ''Preferences''
            in if existsSync preferenceFile w
               then (case readFileSync preferenceFile w of
                       (Inl e, w1) \<Rightarrow> w1
                     | (Inr file, w1) \<Rightarrow>
                         (case JSON_parse E file of
                            None \<Rightarrow> w1
                          | Some content \<Rightarrow>
                              writeFileSync preferenceFile
                                (JSON_stringify E (spread content (prefs this))) w1))
               else writeFileSync preferenceFile (JSON_stringify E (prefs this)) w))"

definition prepare :: "env \<Rightarrow> launcher \<Rightarrow> world \<Rightarrow> (error + unit) \<times> launcher \<times> world" where
  "prepare E this w =
     (if getPlatform E \<notin> set SUPPORTED_PLATFORMS then (Inl UnsupportedPlatformError, this, w)
      else
        (let (d, w1) = (if truthy_str (userDataDir this) then (show_str (userDataDir this), w)
                        else makeTmpDir E w);
             this1 = this\<lparr>userDataDir := Some d\<rparr>
         in case openSync d ''chrome-out.log'' w1 of
              (Inl e, w2) \<Rightarrow> (Inl e, this1, w2)
            | (Inr out, w2) \<Rightarrow>
                (let this2 = this1\<lparr>outFile := Some out\<rparr>
                 in case openSync d ''chrome-err.log'' w2 of
                      (Inl e, w3) \<Rightarrow> (Inl e, this2, w3)
                    | (Inr err, w3) \<Rightarrow>
                        (let this3 = this2\<lparr>errFile := Some err\<rparr>;
                             w4 = setBrowserPrefs E this3 w3;
                             this4 = this3\<lparr>pidFile := Some (in_dir d ''chrome.pid''),
                                           tmpDirandPidFileReady := True\<rparr>
                         in (Inr (), this4, w4)))))"

text \<open>
  \<^verbatim>\<open>isDebuggerReady\<close>: one TCP connection attempt to \<^verbatim>\<open>127.0.0.1:port\<close>; the promise
  resolves on \<^verbatim>\<open>connect\<close> and rejects on \<^verbatim>\<open>error\<close>. With no port the connection
  cannot be created and the promise rejects.
\<close>

definition isDebuggerReady :: "env \<Rightarrow> launcher \<Rightarrow> world \<Rightarrow> unit outcome \<times> world" where
  "isDebuggerReady E this w =
     (let w1 = emit (Connect (port this)) w
      in case port this of
           None \<Rightarrow> (Rejected ConnectionError, w1)
         | Some p \<Rightarrow> if connects E w p then (Resolved (), w1)
                     else (Rejected ConnectionError, w1))"

text \<open>
  \<^verbatim>\<open>waitUntilReady\<close>: the closure \<^verbatim>\<open>poll\<close> with its counter \<^verbatim>\<open>retries\<close>. When the
  retries are used up, the handler reads \<^verbatim>\<open>chrome-err.log\<close> before it calls
  \<^verbatim>\<open>reject\<close>; the contents are only logged, but a read that throws leaves the handler
  before \<^verbatim>\<open>reject\<close> is reached, and the promise of \<^verbatim>\<open>waitUntilReady\<close> never settles.
\<close>

function poll :: "env \<Rightarrow> launcher \<Rightarrow> nat \<Rightarrow> world \<Rightarrow> unit outcome \<times> world" where
  "poll E this retries w =
     (let retries1 = retries + 1
      in case isDebuggerReady E this w of
           (Resolved u, w1) \<Rightarrow> (Resolved (), w1)
         | (Rejected err, w1) \<Rightarrow>
             if int retries1 > maxConnectionRetries this
             then (case readFileSync (in_dir (show_str (userDataDir this)) ''chrome-err.log'') w1 of
                     (Inl e, w2) \<Rightarrow> (Unsettled, w2)
                   | (Inr stderr, w2) \<Rightarrow> (Rejected err, w2))
             else poll E this retries1 (delay (connectionPollInterval this) w1)
         | (Unsettled, w1) \<Rightarrow> (Unsettled, w1))"
  by pat_completeness auto
termination
  by (relation "measure (\<lambda>(E, this, retries, w). nat (maxConnectionRetries this + 1 - int retries))")
    auto

declare poll.simps [simp del]

definition waitUntilReady :: "env \<Rightarrow> launcher \<Rightarrow> world \<Rightarrow> unit outcome \<times> world" where
  "waitUntilReady E this w = poll E this 0 w"

text \<open>
  \<^verbatim>\<open>spawnProcess\<close>: first the inner \<^verbatim>\<open>spawnPromise\<close>, then \<^verbatim>\<open>waitUntilReady\<close>.
  Writing the pid file throws when no pid-file path has been recorded. A child without a
  pid could not be started: it emits \<^verbatim>\<open>error\<close> on the next tick, the launcher has no
  listener for it, and the Node process dies of the uncaught exception before anything
  else settles, unless the host program handles uncaught exceptions.
\<close>

definition spawnPromise :: "env \<Rightarrow> string \<Rightarrow> launcher \<Rightarrow> world \<Rightarrow> nat option outcome \<times> launcher \<times> world" where
  "spawnPromise E execPath this w =
     (case chrome this of
        Some c \<Rightarrow> (Resolved (cpid c), this, w)
      | None \<Rightarrow>
          (let (this1, w1) = (if requestedPort this = 0
                              then (let (p, w') = getRandomPort E w in (this\<lparr>port := Some p\<rparr>, w'))
                              else (this, w));
               (c, w2) = spawn E execPath (flags E this1) (outFile this1) (errFile this1) w1;
               this2 = this1\<lparr>chrome := Some c\<rparr>
           in if truthy_num (cpid c)
              then (case pidFile this2 of
                      None \<Rightarrow> (Rejected (FsError ''undefined''), this2, w2)
                    | Some pf \<Rightarrow> (Resolved (cpid c), this2, writeFileSync pf (show_num (cpid c)) w2))
              else if cpid c = None \<and> \<not> uncaughtExceptionHandler E
              then (Unsettled, this2, w2)
              else (Resolved (cpid c), this2, w2)))"

definition spawnProcess :: "env \<Rightarrow> string \<Rightarrow> launcher \<Rightarrow> world \<Rightarrow> nat option outcome \<times> launcher \<times> world" where
  "spawnProcess E execPath this w =
     (case spawnPromise E execPath this w of
        (Rejected e, this1, w1) \<Rightarrow> (Rejected e, this1, w1)
      | (Unsettled, this1, w1) \<Rightarrow> (Unsettled, this1, w1)
      | (Resolved p, this1, w1) \<Rightarrow>
          (case waitUntilReady E this1 w1 of
             (Rejected e, w2) \<Rightarrow> (Rejected e, this1, w2)
           | (Unsettled, w2) \<Rightarrow> (Unsettled, this1, w2)
           | (Resolved u, w2) \<Rightarrow> (Resolved p, this1, w2)))"

text \<open>
  \<^verbatim>\<open>Launcher.launch\<close>, the method: the port check first, and \<open>launch_new_chrome\<close>
  for its statements after the port check.
\<close>

definition launch_new_chrome :: "env \<Rightarrow> launcher \<Rightarrow> world \<Rightarrow> unit outcome \<times> launcher \<times> world" where
  "launch_new_chrome E this w =
     (case (case chromePath this of
              None \<Rightarrow>
                (case getFirstInstallation E of
                   Inl e \<Rightarrow> Inl e
                 | Inr installation \<Rightarrow>
                     if \<not> truthy_str installation then Inl ChromeNotInstalledError
                     else Inr (this\<lparr>chromePath := installation\<rparr>))
            | Some p \<Rightarrow> Inr this) of
        Inl e \<Rightarrow> (Rejected e, this, w)
      | Inr this1 \<Rightarrow>
          (case (if \<not> tmpDirandPidFileReady this1 then prepare E this1 w else (Inr (), this1, w)) of
             (Inl e, this2, w2) \<Rightarrow> (Rejected e, this2, w2)
           | (Inr u, this2, w2) \<Rightarrow>
               (case spawnProcess E (show_str (chromePath this2)) this2 w2 of
                  (Rejected e, this3, w3) \<Rightarrow> (Rejected e, this3, w3)
                | (Unsettled, this3, w3) \<Rightarrow> (Unsettled, this3, w3)
                | (Resolved p, this3, w3) \<Rightarrow> (Resolved (), this3\<lparr>pid := p\<rparr>, w3))))"

definition Launcher_launch :: "env \<Rightarrow> launcher \<Rightarrow> world \<Rightarrow> unit outcome \<times> launcher \<times> world" where
  "Launcher_launch E this w =
     (if requestedPort this \<noteq> 0
      then (let this1 = this\<lparr>port := Some (requestedPort this)\<rparr>
            in case isDebuggerReady E this1 w of
                 (Resolved u, w1) \<Rightarrow> (Resolved (), this1, w1)
               | (Rejected err, w1) \<Rightarrow> launch_new_chrome E this1 w1
               | (Unsettled, w1) \<Rightarrow> (Unsettled, this1, w1))
      else launch_new_chrome E this w)"

text \<open>
  \<^verbatim>\<open>destroyTmp\<close> and \<^verbatim>\<open>kill\<close>. The termination request (\<open>terminate\<close>, the
  \<^verbatim>\<open>try\<close> block of \<^verbatim>\<open>kill\<close>) is \<^verbatim>\<open>taskkill\<close> on Windows and a signal to the
  negated pid elsewhere, where a child without a pid (or with the pid 0) gets no request
  at all. When the request raises, the promise rejects. When it was sent and did not
  raise, the child's \<^verbatim>\<open>close\<close> event is taken as delivered: its listener deletes
  \<^verbatim>\<open>this.chrome\<close> and resolves after \<^verbatim>\<open>destroyTmp\<close>. When no request was sent, nothing
  closes the child after the listener has been added, and the promise never settles.
\<close>

definition destroyTmp :: "launcher \<Rightarrow> world \<Rightarrow> launcher \<times> world" where
  "destroyTmp this w =
     (if userDataDir this = None \<or> opt_userDataDir (opts this) \<noteq> None then (this, w)
      else
        (let (this1, w1) = (if truthy_num (outFile this)
                            then (this\<lparr>outFile := None\<rparr>, closeSync (the (outFile this)) w)
                            else (this, w));
             (this2, w2) = (if truthy_num (errFile this1)
                            then (this1\<lparr>errFile := None\<rparr>, closeSync (the (errFile this1)) w1)
                            else (this1, w1))
         in (this2, rm (show_str (userDataDir this2)) w2)))"

datatype request = Raised string | Sent | NotSent

definition raised :: "string option \<Rightarrow> request" where
  "raised r = (case r of None \<Rightarrow> Sent | Some msg \<Rightarrow> Raised msg)"

definition terminate :: "env \<Rightarrow> child \<Rightarrow> world \<Rightarrow> request \<times> world" where
  "terminate E c w =
     (if isWindows E
      then (let cmd = ''taskkill /pid '' @ show_num (cpid c) @ '' /T /F''
            in (raised (execSync E cmd), emit (Exec cmd) w))
      else (case cpid c of
              None \<Rightarrow> (NotSent, w)
            | Some p \<Rightarrow> if p \<noteq> 0 then (raised (process_kill E (- int p)), emit (Signal (- int p)) w)
                        else (NotSent, w)))"

definition kill :: "env \<Rightarrow> launcher \<Rightarrow> world \<Rightarrow> unit outcome \<times> launcher \<times> world" where
  "kill E this w =
     (case chrome this of
        Some c \<Rightarrow>
          (case terminate E c w of
             (Raised msg, w1) \<Rightarrow> (Rejected (Error (''Chrome could not be killed '' @ msg)), this, w1)
           | (Sent, w1) \<Rightarrow>
               (let (this1, w2) = destroyTmp (this\<lparr>chrome := None\<rparr>) w1
                in (Resolved (), this1, w2))
           | (NotSent, w1) \<Rightarrow> (Unsettled, this, w1))
      | None \<Rightarrow> (Resolved (), this, w))"

section \<open>Instance registry and facade\<close>

text \<open>
  The module state: the set \<^verbatim>\<open>instances\<close> in insertion order, the number of copies of
  \<^verbatim>\<open>sigintListener\<close> registered on the process (\<^verbatim>\<open>process.on\<close> adds one,
  \<^verbatim>\<open>process.removeListener\<close> takes one away if there is one), and the store of
  \<^verbatim>\<open>Launcher\<close> objects, addressed by identity.
\<close>

record state =
  instances :: "nat list"
  sigintListeners :: nat
  objects :: "nat \<Rightarrow> launcher"
  nextId :: nat
  world :: world

text \<open>\<^verbatim>\<open>interface LaunchedChrome\<close>; the closure \<^verbatim>\<open>kill\<close> is the instance it captured.\<close>

record LaunchedChrome =
  lc_pid :: "nat option"
  lc_port :: "nat option"
  lc_process :: "child option"
  lc_kill :: nat

definition set_add :: "nat \<Rightarrow> nat list \<Rightarrow> nat list" where
  "set_add i xs = (if i \<in> set xs then xs else xs @ [i])"

definition set_delete :: "nat \<Rightarrow> nat list \<Rightarrow> nat list" where
  "set_delete i xs = removeAll i xs"

definition process_on :: "state \<Rightarrow> state" where
  "process_on s = s\<lparr>sigintListeners := sigintListeners s + 1\<rparr>"

definition process_removeListener :: "state \<Rightarrow> state" where
  "process_removeListener s = s\<lparr>sigintListeners := sigintListeners s - 1\<rparr>"

definition launch :: "env \<Rightarrow> Options \<Rightarrow> state \<Rightarrow> LaunchedChrome outcome \<times> state" where
  "launch E opt0 s =
     (let opt = opt0\<lparr>opt_handleSIGINT := Some (defaults (opt_handleSIGINT opt0) True)\<rparr>
      in case Launcher_constructor opt of
           Inl e \<Rightarrow> (Rejected e, s)
         | Inr inst \<Rightarrow>
             (let i = nextId s;
                  s1 = s\<lparr>objects := (objects s)(i := inst), nextId := i + 1\<rparr>;
                  s2 = (if opt_handleSIGINT opt = Some True \<and> length (instances s1) = 0
                        then process_on s1 else s1);
                  s3 = s2\<lparr>instances := set_add i (instances s2)\<rparr>
              in case Launcher_launch E inst (world s3) of
                   (Rejected e, inst1, w1) \<Rightarrow>
                     (Rejected e, s3\<lparr>objects := (objects s3)(i := inst1), world := w1\<rparr>)
                 | (Unsettled, inst1, w1) \<Rightarrow>
                     (Unsettled, s3\<lparr>objects := (objects s3)(i := inst1), world := w1\<rparr>)
                 | (Resolved u, inst1, w1) \<Rightarrow>
                     (Resolved \<lparr>lc_pid = pid inst1, lc_port = port inst1,
                                lc_process = chrome inst1, lc_kill = i\<rparr>,
                      s3\<lparr>objects := (objects s3)(i := inst1), world := w1\<rparr>)))"

text \<open>The closure \<^verbatim>\<open>kill\<close> that \<^verbatim>\<open>launch\<close> returns in the handle.\<close>

definition handle_kill :: "env \<Rightarrow> nat \<Rightarrow> state \<Rightarrow> unit outcome \<times> state" where
  "handle_kill E i s =
     (let s1 = s\<lparr>instances := set_delete i (instances s)\<rparr>;
          s2 = (if length (instances s1) = 0 then process_removeListener s1 else s1)
      in case kill E (objects s2 i) (world s2) of
           (r, inst1, w1) \<Rightarrow> (r, s2\<lparr>objects := (objects s2)(i := inst1), world := w1\<rparr>))"

text \<open>
  \<^verbatim>\<open>killAll\<close>: the loop over the set. An element deleted inside the loop is the one
  being visited, so the loop visits the members the set had when it started. The loop
  awaits each kill: a kill that never settles leaves \<^verbatim>\<open>killAll\<close> pending at that
  instance.
\<close>

fun killAll_loop :: "env \<Rightarrow> nat list \<Rightarrow> error list \<Rightarrow> state \<Rightarrow> error list outcome \<times> state" where
  "killAll_loop E [] errors s = (Resolved errors, s)"
| "killAll_loop E (i # rest) errors s =
     (case kill E (objects s i) (world s) of
        (Resolved u, inst1, w1) \<Rightarrow>
          killAll_loop E rest errors
            (s\<lparr>objects := (objects s)(i := inst1), world := w1,
               instances := set_delete i (instances s)\<rparr>)
      | (Rejected err, inst1, w1) \<Rightarrow>
          killAll_loop E rest (push errors [err])
            (s\<lparr>objects := (objects s)(i := inst1), world := w1\<rparr>)
      | (Unsettled, inst1, w1) \<Rightarrow>
          (Unsettled, s\<lparr>objects := (objects s)(i := inst1), world := w1\<rparr>))"

definition killAll :: "env \<Rightarrow> state \<Rightarrow> error list outcome \<times> state" where
  "killAll E s = killAll_loop E (instances s) [] s"

text \<open>
  \<^verbatim>\<open>sigintListener\<close>: \<^verbatim>\<open>killAll\<close>, then the process exits with the code returned here,
  once \<^verbatim>\<open>killAll\<close> has settled.
\<close>

definition sigintListener :: "env \<Rightarrow> state \<Rightarrow> nat option \<times> state" where
  "sigintListener E s =
     (case killAll E s of
        (Unsettled, s1) \<Rightarrow> (None, s1)
      | (r, s1) \<Rightarrow> (Some SIGINT_EXIT_CODE, s1))"

section \<open>The specification's words\<close>

text \<open>
  The flag builder as the specification composes it: the default flag set unless disabled,
  the debugging port, the sandbox flag on Linux when defaults are not disabled, the
  profile-directory flag unless the default profile was requested (the path translated
  under WSL), the extra flags, the starting URLs.
\<close>

definition hostPath :: "env \<Rightarrow> string option \<Rightarrow> string" where
  "hostPath E d = (if getPlatform E = Wsl then toWin32Path E d else show_str d)"

definition spec_flags :: "env \<Rightarrow> launcher \<Rightarrow> string list" where
  "spec_flags E this =
     (if ignoreDefaultFlags this then [] else DEFAULT_FLAGS E)
     @ [''--remote-debugging-port='' @ show_num (port this)]
     @ (if getPlatform E = Linux \<and> \<not> ignoreDefaultFlags this
        then [''--disable-setuid-sandbox''] else [])
     @ (if useDefaultProfile this then []
        else [''--user-data-dir='' @ hostPath E (userDataDir this)])
     @ chromeFlags this
     @ startingUrl this"

text \<open>
  Retry exhaustion as the specification counts it: one initial probe and \<open>k\<close> retries,
  a wait before every retry.
\<close>

fun attempts :: "nat \<Rightarrow> event \<Rightarrow> event \<Rightarrow> event list" where
  "attempts 0 probe wait = [probe]"
| "attempts (Suc k) probe wait = probe # wait # attempts k probe wait"

text \<open>The number of connection attempts in a trace.\<close>

definition is_Connect :: "event \<Rightarrow> bool" where
  "is_Connect e = (case e of Connect p \<Rightarrow> True | _ \<Rightarrow> False)"

definition probes_in :: "event list \<Rightarrow> nat" where
  "probes_in es = length (filter is_Connect es)"

section \<open>Notions used by the properties\<close>

text \<open>
  Whether the kill of a registered instance rejects, the error it rejects with, and
  whether it never settles.
\<close>

definition rejection :: "'a outcome \<Rightarrow> error option" where
  "rejection r = (case r of Rejected e \<Rightarrow> Some e | _ \<Rightarrow> None)"

definition kill_fails :: "env \<Rightarrow> state \<Rightarrow> nat \<Rightarrow> bool" where
  "kill_fails E s i = (rejection (fst (kill E (objects s i) (world s))) \<noteq> None)"

definition kill_err :: "env \<Rightarrow> state \<Rightarrow> nat \<Rightarrow> error" where
  "kill_err E s i = the (rejection (fst (kill E (objects s i) (world s))))"

definition kill_pending :: "env \<Rightarrow> state \<Rightarrow> nat \<Rightarrow> bool" where
  "kill_pending E s i = (fst (kill E (objects s i) (world s)) = Unsettled)"

section \<open>A concrete environment\<close>

text \<open>
  A macOS host with one default flag, on which a port answers once a process has been
  spawned and which does not handle uncaught exceptions, and an empty registry over a
  file system that has the directory \<^verbatim>\<open>/data\<close>.
\<close>

definition is_Spawn :: "event \<Rightarrow> bool" where
  "is_Spawn e = (case e of Spawn a b c d \<Rightarrow> True | _ \<Rightarrow> False)"

definition env0 :: env where
  "env0 = \<lparr>getPlatform = Darwin, DEFAULT_FLAGS = [''--disable-sync''], toWin32Path = show_str,
     darwinFast = Some ''/usr/bin/chrome'', installations = [], tmpDirName = (\<lambda>n. ''/tmp/lh''),
     randomPort = (\<lambda>n. 9333), connects = (\<lambda>w p. list_ex is_Spawn (trace w)),
     spawn_pid = (\<lambda>n. Some 4242), process_kill = (\<lambda>n. None), execSync = (\<lambda>c. None),
     JSON_parse = (\<lambda>s. None), JSON_stringify = (\<lambda>kv. []),
     uncaughtExceptionHandler = False\<rparr>"

definition w0 :: world where
  "w0 = \<lparr>dirs = [''/data''], files = (\<lambda>p. None), openFds = [], trace = []\<rparr>"

definition opts0 :: Options where
  "opts0 = \<lparr>opt_startingUrl = None, opt_chromeFlags = None, opt_prefs = None, opt_port = None,
     opt_handleSIGINT = None, opt_chromePath = None, opt_userDataDir = None,
     opt_ignoreDefaultFlags = None, opt_connectionPollInterval = None,
     opt_maxConnectionRetries = None\<rparr>"

definition blank :: launcher where
  "blank = (case Launcher_constructor opts0 of Inr l \<Rightarrow> l)"

definition s0 :: state where
  "s0 = \<lparr>instances = [], sigintListeners = 0, objects = (\<lambda>i. blank), nextId = 0, world = w0\<rparr>"

text \<open>The same host when nothing ever listens, when port 9222 is already served, and when
  the operating system refuses to signal the child.\<close>

definition env_dead :: env where
  "env_dead = env0\<lparr>connects := (\<lambda>w p. False)\<rparr>"

definition env_listening :: env where
  "env_listening = env0\<lparr>connects := (\<lambda>w p. p = 9222)\<rparr>"

definition env_unkillable :: env where
  "env_unkillable = env0\<lparr>process_kill := (\<lambda>n. Some ''kill ESRCH'')\<rparr>"

text \<open>A caller-supplied directory, a host that refuses to signal pid 1 only, and a registry
  of two launchers whose children have the pids 1 and 2.\<close>

definition opts_data :: Options where
  "opts_data = opts0\<lparr>opt_userDataDir := Some (Path ''/data'')\<rparr>"

definition env_partial :: env where
  "env_partial = env0\<lparr>process_kill := (\<lambda>n. if n = - 1 then Some ''kill EPERM'' else None)\<rparr>"

definition s_two :: state where
  "s_two = \<lparr>instances = [0, 1], sigintListeners = 1,
            objects = (\<lambda>i. blank\<lparr>chrome := Some \<lparr>cpid = Some (i + 1)\<rparr>\<rparr>),
            nextId = 2, world = w0\<rparr>"


text \<open>
  The launcher that \<^verbatim>\<open>launch\<close> constructs from no options, and what its launch leaves on
  the concrete host: a temporary directory, two log files, a random port, one child, one
  successful probe.
\<close>

definition inst0 :: launcher where
  "inst0 = blank\<lparr>opts := opts0\<lparr>opt_handleSIGINT := Some True\<rparr>\<rparr>"

definition L1 :: launcher where
  "L1 = inst0\<lparr>tmpDirandPidFileReady := True, pidFile := Some ''/tmp/lh/chrome.pid'',
           outFile := Some 3, errFile := Some 4, chromePath := Some ''/usr/bin/chrome'',
           chrome := Some \<lparr>cpid = Some 4242\<rparr>, userDataDir := Some ''/tmp/lh'',
           port := Some 9333, pid := Some 4242\<rparr>"

definition W1 :: world where
  "W1 = \<lparr>dirs = [''/data'', ''/tmp/lh''],
      files = (\<lambda>p. None)(''/tmp/lh/chrome-out.log'' := Some [],
                ''/tmp/lh/chrome-err.log'' := Some [], ''/tmp/lh/chrome.pid'' := Some ''4242''),
      openFds = [3, 4],
      trace = [MkTmp ''/tmp/lh'', Open ''/tmp/lh/chrome-out.log'' 3,
               Open ''/tmp/lh/chrome-err.log'' 4, RandomPort 9333,
               Spawn ''/usr/bin/chrome''
                 [''--disable-sync'', ''--remote-debugging-port=9333'',
                  ''--user-data-dir=/tmp/lh'', ''about:blank''] (Some 3) (Some 4),
               Write ''/tmp/lh/chrome.pid'' ''4242'', Connect (Some 9333)]\<rparr>"

definition S1 :: state where
  "S1 = \<lparr>instances = [0], sigintListeners = 1, objects = (\<lambda>i. blank)(0 := L1), nextId = 1,
         world = W1\<rparr>"

definition h1 :: LaunchedChrome where
  "h1 = \<lparr>lc_pid = Some 4242, lc_port = Some 9333, lc_process = Some \<lparr>cpid = Some 4242\<rparr>,
         lc_kill = 0\<rparr>"

text \<open>The same launch into the caller-supplied directory \<^verbatim>\<open>/data\<close>.\<close>

definition Ld :: launcher where
  "Ld = blank\<lparr>opts := opts_data\<lparr>opt_handleSIGINT := Some True\<rparr>,
           tmpDirandPidFileReady := True, pidFile := Some ''/data/chrome.pid'',
           outFile := Some 3, errFile := Some 4, chromePath := Some ''/usr/bin/chrome'',
           chrome := Some \<lparr>cpid = Some 4242\<rparr>, userDataDir := Some ''/data'',
           port := Some 9333, pid := Some 4242\<rparr>"

definition Wd :: world where
  "Wd = \<lparr>dirs = [''/data''],
      files = (\<lambda>p. None)(''/data/chrome-out.log'' := Some [],
                ''/data/chrome-err.log'' := Some [], ''/data/chrome.pid'' := Some ''4242''),
      openFds = [3, 4],
      trace = [Open ''/data/chrome-out.log'' 3, Open ''/data/chrome-err.log'' 4,
               RandomPort 9333,
               Spawn ''/usr/bin/chrome''
                 [''--disable-sync'', ''--remote-debugging-port=9333'',
                  ''--user-data-dir=/data'', ''about:blank''] (Some 3) (Some 4),
               Write ''/data/chrome.pid'' ''4242'', Connect (Some 9333)]\<rparr>"

definition Sd :: state where
  "Sd = \<lparr>instances = [0], sigintListeners = 1, objects = (\<lambda>i. blank)(0 := Ld), nextId = 1,
         world = Wd\<rparr>"

text \<open>
  The default-profile mode and the empty path: in both \<^verbatim>\<open>prepare\<close> makes the temporary
  directory itself.
\<close>

definition opts_false :: Options where
  "opts_false = opts0\<lparr>opt_userDataDir := Some (Flag False)\<rparr>"

definition opts_empty :: Options where
  "opts_empty = opts0\<lparr>opt_userDataDir := Some (Path [])\<rparr>"

definition Lf :: launcher where
  "Lf = blank\<lparr>opts := opts_false\<lparr>opt_handleSIGINT := Some True\<rparr>,
           tmpDirandPidFileReady := True, pidFile := Some ''/tmp/lh/chrome.pid'',
           outFile := Some 3, errFile := Some 4, chromePath := Some ''/usr/bin/chrome'',
           useDefaultProfile := True,
           chrome := Some \<lparr>cpid = Some 4242\<rparr>, userDataDir := Some ''/tmp/lh'',
           port := Some 9333, pid := Some 4242\<rparr>"

definition Wf :: world where
  "Wf = \<lparr>dirs = [''/data'', ''/tmp/lh''],
      files = (\<lambda>p. None)(''/tmp/lh/chrome-out.log'' := Some [],
                ''/tmp/lh/chrome-err.log'' := Some [], ''/tmp/lh/chrome.pid'' := Some ''4242''),
      openFds = [3, 4],
      trace = [MkTmp ''/tmp/lh'', Open ''/tmp/lh/chrome-out.log'' 3,
               Open ''/tmp/lh/chrome-err.log'' 4, RandomPort 9333,
               Spawn ''/usr/bin/chrome''
                 [''--disable-sync'', ''--remote-debugging-port=9333'', ''about:blank'']
                 (Some 3) (Some 4),
               Write ''/tmp/lh/chrome.pid'' ''4242'', Connect (Some 9333)]\<rparr>"

definition Sf :: state where
  "Sf = \<lparr>instances = [0], sigintListeners = 1, objects = (\<lambda>i. blank)(0 := Lf), nextId = 1,
         world = Wf\<rparr>"

definition Le :: launcher where
  "Le = L1\<lparr>opts := opts_empty\<lparr>opt_handleSIGINT := Some True\<rparr>\<rparr>"

definition Se :: state where
  "Se = \<lparr>instances = [0], sigintListeners = 1, objects = (\<lambda>i. blank)(0 := Le), nextId = 1,
         world = W1\<rparr>"

text \<open>
  A host on which no process can be started and nothing listens, whose program handles
  uncaught exceptions, and a configuration without retries. The launch rejects and leaves
  a registered launcher that holds a child without a pid.
\<close>

definition env_nospawn :: env where
  "env_nospawn = env0\<lparr>spawn_pid := (\<lambda>n. None), connects := (\<lambda>w p. False),
                     uncaughtExceptionHandler := True\<rparr>"

definition opts_once :: Options where
  "opts_once = opts0\<lparr>opt_maxConnectionRetries := Some 0\<rparr>"

definition Ln :: launcher where
  "Ln = blank\<lparr>opts := opts_once\<lparr>opt_handleSIGINT := Some True\<rparr>,
           maxConnectionRetries := 0,
           tmpDirandPidFileReady := True, pidFile := Some ''/tmp/lh/chrome.pid'',
           outFile := Some 3, errFile := Some 4, chromePath := Some ''/usr/bin/chrome'',
           chrome := Some \<lparr>cpid = None\<rparr>, userDataDir := Some ''/tmp/lh'',
           port := Some 9333\<rparr>"

definition Wn :: world where
  "Wn = \<lparr>dirs = [''/data'', ''/tmp/lh''],
      files = (\<lambda>p. None)(''/tmp/lh/chrome-out.log'' := Some [],
                ''/tmp/lh/chrome-err.log'' := Some []),
      openFds = [3, 4],
      trace = [MkTmp ''/tmp/lh'', Open ''/tmp/lh/chrome-out.log'' 3,
               Open ''/tmp/lh/chrome-err.log'' 4, RandomPort 9333,
               Spawn ''/usr/bin/chrome''
                 [''--disable-sync'', ''--remote-debugging-port=9333'',
                  ''--user-data-dir=/tmp/lh'', ''about:blank''] (Some 3) (Some 4),
               Connect (Some 9333), Read ''/tmp/lh/chrome-err.log'']\<rparr>"

definition Sn :: state where
  "Sn = \<lparr>instances = [0], sigintListeners = 1, objects = (\<lambda>i. blank)(0 := Ln), nextId = 1,
         world = Wn\<rparr>"

section \<open>Basic facts\<close>

lemma string_of_nat_9222: "string_of_nat 9222 = ''9222''"
  by (simp add: string_of_nat.simps digit_char_def)

lemma process_on_simps [simp]:
  "world (process_on s) = world s" "instances (process_on s) = instances s"
  "objects (process_on s) = objects s" "nextId (process_on s) = nextId s"
  "sigintListeners (process_on s) = sigintListeners s + 1"
  by (simp_all add: process_on_def)

lemma process_removeListener_simps [simp]:
  "world (process_removeListener s) = world s"
  "instances (process_removeListener s) = instances s"
  "objects (process_removeListener s) = objects s"
  "nextId (process_removeListener s) = nextId s"
  "sigintListeners (process_removeListener s) = sigintListeners s - 1"
  by (simp_all add: process_removeListener_def)

text \<open>What the constructor returns: it throws only for the boolean \<open>true\<close>.\<close>

lemma constructor_cases:
  "Launcher_constructor opt = Inl InvalidUserDataDirectoryError
     \<and> opt_userDataDir opt = Some (Flag True)
   \<or> (\<exists>inst. Launcher_constructor opt = Inr inst \<and> opts inst = opt \<and> chrome inst = None
        \<and> pid inst = None \<and> port inst = None \<and> requestedPort inst = defaults (opt_port opt) 0
        \<and> \<not> tmpDirandPidFileReady inst \<and> chromePath inst = opt_chromePath opt
        \<and> maxConnectionRetries inst = defaults (opt_maxConnectionRetries opt) 50
        \<and> connectionPollInterval inst = defaults (opt_connectionPollInterval opt) 500
        \<and> userDataDir inst = (case opt_userDataDir opt of Some (Path p) \<Rightarrow> Some p | _ \<Rightarrow> None)
        \<and> opt_userDataDir opt \<noteq> Some (Flag True))"
  by (auto simp: Launcher_constructor_def Let_def split: option.splits user_data_dir.splits)

lemma Launcher_launch_reuse:
  assumes "requestedPort this \<noteq> 0" and "connects E w (requestedPort this)"
  shows "Launcher_launch E this w =
    (Resolved (), this\<lparr>port := Some (requestedPort this)\<rparr>,
     emit (Connect (Some (requestedPort this))) w)"
  using assms by (simp add: Launcher_launch_def isDebuggerReady_def Let_def)

lemma isDebuggerReady_fails:
  assumes "\<And>p. port this = Some p \<Longrightarrow> \<not> connects E w p"
  shows "isDebuggerReady E this w = (Rejected ConnectionError, emit (Connect (port this)) w)"
  using assms by (simp add: isDebuggerReady_def Let_def split: option.splits)

subsection \<open>Polling\<close>

lemma poll_exhaust:
  assumes fails: "\<And>w p. port this = Some p \<Longrightarrow> \<not> connects E w p"
    and k: "k = nat (maxConnectionRetries this - int r)"
    and le: "int r \<le> maxConnectionRetries this"
    and log: "files w (in_dir (show_str (userDataDir this)) ''chrome-err.log'') \<noteq> None"
  shows "poll E this r w =
    (Rejected ConnectionError,
     w\<lparr>trace := trace w
        @ attempts k (Connect (port this)) (Delay (connectionPollInterval this))
        @ [Read (in_dir (show_str (userDataDir this)) ''chrome-err.log'')]\<rparr>)"
  using k le log
proof (induction k arbitrary: r w)
  case 0
  then have "int (r + 1) > maxConnectionRetries this" by simp
  then show ?case
    using isDebuggerReady_fails [of this E w, OF fails] "0.prems"(3)
    by (subst poll.simps) (auto simp: Let_def readFileSync_def emit_def)
next
  case (Suc k)
  then have nle: "\<not> int (r + 1) > maxConnectionRetries this" by simp
  have k': "k = nat (maxConnectionRetries this - int (r + 1))" using Suc.prems by simp
  have le': "int (r + 1) \<le> maxConnectionRetries this" using nle by simp
  let ?w = "delay (connectionPollInterval this) (emit (Connect (port this)) w)"
  have log': "files ?w (in_dir (show_str (userDataDir this)) ''chrome-err.log'') \<noteq> None"
    using Suc.prems(3) by (simp add: delay_def emit_def)
  have step: "poll E this r w = poll E this (r + 1) ?w"
    using isDebuggerReady_fails [of this E w, OF fails] nle
    by (subst poll.simps) (simp add: Let_def)
  show ?case
    unfolding step Suc.IH [OF k' le' log']
    by (simp add: delay_def emit_def)
qed

text \<open>Without the log file the promise is left pending once the retries are used up.\<close>

lemma poll_missing_log:
  assumes fails: "\<And>w p. port this = Some p \<Longrightarrow> \<not> connects E w p"
    and k: "k = nat (maxConnectionRetries this - int r)"
    and log: "files w (in_dir (show_str (userDataDir this)) ''chrome-err.log'') = None"
  shows "fst (poll E this r w) = Unsettled"
  using k log
proof (induction k arbitrary: r w)
  case 0
  then have "int (r + 1) > maxConnectionRetries this" by simp
  then show ?case
    using isDebuggerReady_fails [of this E w, OF fails] "0.prems"(2)
    by (subst poll.simps) (simp add: Let_def readFileSync_def emit_def)
next
  case (Suc k)
  then have nle: "\<not> int (r + 1) > maxConnectionRetries this" by simp
  have k': "k = nat (maxConnectionRetries this - int (r + 1))" using Suc.prems by simp
  let ?w = "delay (connectionPollInterval this) (emit (Connect (port this)) w)"
  have log': "files ?w (in_dir (show_str (userDataDir this)) ''chrome-err.log'') = None"
    using Suc.prems(2) by (simp add: delay_def emit_def)
  have step: "poll E this r w = poll E this (r + 1) ?w"
    using isDebuggerReady_fails [of this E w, OF fails] nle
    by (subst poll.simps) (simp add: Let_def)
  show ?case
    unfolding step by (rule Suc.IH [OF k' log'])
qed

lemma probes_in_attempts:
  "probes_in (attempts k (Connect p) (Delay ms)) = k + 1"
  by (induction k) (simp_all add: probes_in_def is_Connect_def)

lemma attempts_2:
  "attempts 2 probe wait = [probe, wait, probe, wait, probe]"
  by (simp add: numeral_2_eq_2)

text \<open>\<^verbatim>\<open>poll\<close> touches nothing but the trace.\<close>

lemma poll_only_trace:
  "\<exists>es. snd (poll E this r w) = w\<lparr>trace := trace w @ es\<rparr>"
proof (induction E this r w rule: poll.induct)
  case (1 E this retries w)
  obtain res w1 where p: "isDebuggerReady E this w = (res, w1)"
    by (cases "isDebuggerReady E this w")
  then have w1: "w1 = w\<lparr>trace := trace w @ [Connect (port this)]\<rparr>"
    by (auto simp: isDebuggerReady_def Let_def emit_def split: option.splits if_splits)
  show ?case
  proof (cases res)
    case (Resolved u)
    then show ?thesis using p w1 by (subst poll.simps) (auto simp: Let_def)
  next
    case Unsettled
    then show ?thesis using p w1 by (subst poll.simps) (auto simp: Let_def)
  next
    case (Rejected err)
    show ?thesis
    proof (cases "int (retries + 1) > maxConnectionRetries this")
      case True
      then show ?thesis using p w1 Rejected
        by (subst poll.simps)
          (auto simp: Let_def readFileSync_def emit_def split: option.splits)
    next
      case False
      from "1.IH" [OF refl p [symmetric] Rejected False]
      obtain es where
        "snd (poll E this (retries + 1) (delay (connectionPollInterval this) w1)) =
          (delay (connectionPollInterval this) w1)
            \<lparr>trace := trace (delay (connectionPollInterval this) w1) @ es\<rparr>"
        by blast
      then show ?thesis using p w1 Rejected False
        by (subst poll.simps) (auto simp: Let_def delay_def emit_def)
    qed
  qed
qed

lemma waitUntilReady_frame:
  assumes "waitUntilReady E this w = (r, w')"
  shows "dirs w' = dirs w" and "files w' = files w" and "openFds w' = openFds w"
proof -
  from poll_only_trace [of E this 0 w] assms
  obtain es where "w' = w\<lparr>trace := trace w @ es\<rparr>"
    by (auto simp: waitUntilReady_def)
  then show "dirs w' = dirs w" and "files w' = files w" and "openFds w' = openFds w"
    by simp_all
qed

subsection \<open>Preparation and spawning\<close>

lemma openSync_ok:
  assumes "d \<in> set (dirs w)"
  shows "\<exists>fd w'. openSync d name w = (Inr fd, w') \<and> dirs w' = dirs w
           \<and> files w' (in_dir d name) \<noteq> None"
  using assms by (simp add: openSync_def Let_def emit_def)

lemma openSync_keeps_files:
  assumes "openSync d name w = (r, w')" and "files w p \<noteq> None"
  shows "files w' p \<noteq> None"
  using assms by (auto simp: openSync_def Let_def emit_def split: if_splits)

lemma openSync_creates:
  assumes "openSync d name w = (Inr fd, w')"
  shows "files w' (in_dir d name) \<noteq> None"
  using assms by (auto simp: openSync_def Let_def emit_def split: if_splits)

lemma openSync_dirs:
  assumes "openSync d name w = (r, w')"
  shows "dirs w' = dirs w"
  using assms by (auto simp: openSync_def Let_def emit_def split: if_splits)

lemma setBrowserPrefs_dirs [simp]: "dirs (setBrowserPrefs E this w) = dirs w"
  by (auto simp: setBrowserPrefs_def Let_def writeFileSync_def readFileSync_def emit_def
      split: option.splits prod.splits sum.splits)

lemma setBrowserPrefs_keeps_files:
  assumes "files w p \<noteq> None"
  shows "files (setBrowserPrefs E this w) p \<noteq> None"
  using assms
  by (auto simp: setBrowserPrefs_def Let_def writeFileSync_def readFileSync_def emit_def
      split: option.splits prod.splits sum.splits)

lemma prepare_fields:
  assumes "prepare E this w = (r, this', w')"
  shows "chrome this' = chrome this \<and> opts this' = opts this \<and> port this' = port this
       \<and> requestedPort this' = requestedPort this
       \<and> maxConnectionRetries this' = maxConnectionRetries this
       \<and> connectionPollInterval this' = connectionPollInterval this
       \<and> (r = Inr () \<longrightarrow>
            (\<exists>d. userDataDir this' = Some d \<and> d \<in> set (dirs w')
                \<and> files w' (in_dir d ''chrome-err.log'') \<noteq> None)
             \<and> pidFile this' \<noteq> None)"
proof (cases "getPlatform E \<in> set SUPPORTED_PLATFORMS")
  case False
  then show ?thesis using assms by (auto simp: prepare_def)
next
  case True
  obtain d w1 where dw: "(if truthy_str (userDataDir this) then (show_str (userDataDir this), w)
                        else makeTmpDir E w) = (d, w1)"
    by (cases "(if truthy_str (userDataDir this) then (show_str (userDataDir this), w)
                        else makeTmpDir E w)")
  obtain r1 w2 where o1: "openSync d ''chrome-out.log'' w1 = (r1, w2)"
    by (cases "openSync d ''chrome-out.log'' w1")
  show ?thesis
  proof (cases r1)
    case (Inl e)
    then show ?thesis using assms True dw o1 by (auto simp: prepare_def Let_def)
  next
    case (Inr out)
    then have d1: "d \<in> set (dirs w1)"
      using o1 by (auto simp: openSync_def Let_def split: if_splits)
    have d2: "dirs w2 = dirs w1" using o1 by (rule openSync_dirs)
    obtain r2 w3 where o2: "openSync d ''chrome-err.log'' w2 = (r2, w3)"
      by (cases "openSync d ''chrome-err.log'' w2")
    have d3: "dirs w3 = dirs w2" using o2 by (rule openSync_dirs)
    show ?thesis
    proof (cases r2)
      case (Inl e)
      then show ?thesis using assms True dw o1 Inr o2 by (auto simp: prepare_def Let_def)
    next
      case (Inr err)
      then have "files w3 (in_dir d ''chrome-err.log'') \<noteq> None"
        using o2 openSync_creates by blast
      then have "files (setBrowserPrefs E (this\<lparr>userDataDir := Some d, outFile := Some out,
                    errFile := Some err\<rparr>) w3) (in_dir d ''chrome-err.log'') \<noteq> None"
        by (rule setBrowserPrefs_keeps_files)
      then show ?thesis
        using assms True dw o1 \<open>r1 = Inr out\<close> Inr o2 d1 d2 d3
        by (auto simp: prepare_def Let_def)
    qed
  qed
qed

lemma prepare_ok:
  assumes "getPlatform E \<in> set SUPPORTED_PLATFORMS"
    and "truthy_str (userDataDir this) \<Longrightarrow> show_str (userDataDir this) \<in> set (dirs w)"
  shows "\<exists>this' w'. prepare E this w = (Inr (), this', w')"
proof -
  obtain d w1 where dw: "(if truthy_str (userDataDir this) then (show_str (userDataDir this), w)
                        else makeTmpDir E w) = (d, w1)"
    by (cases "(if truthy_str (userDataDir this) then (show_str (userDataDir this), w)
                        else makeTmpDir E w)")
  have d1: "d \<in> set (dirs w1)"
    using dw assms(2) by (auto simp: makeTmpDir_def Let_def emit_def split: if_splits)
  from openSync_ok [OF d1, of "''chrome-out.log''"]
  obtain out w2 where o1: "openSync d ''chrome-out.log'' w1 = (Inr out, w2)"
    and d2: "dirs w2 = dirs w1" by blast
  from d1 d2 have "d \<in> set (dirs w2)" by simp
  from openSync_ok [OF this, of "''chrome-err.log''"]
  obtain err w3 where o2: "openSync d ''chrome-err.log'' w2 = (Inr err, w3)" by blast
  show ?thesis
    using assms(1) dw o1 o2 by (simp add: prepare_def Let_def)
qed

lemma spawnPromise_fields:
  assumes "spawnPromise E x this w = (r, this1, w1)"
  shows "maxConnectionRetries this1 = maxConnectionRetries this
       \<and> connectionPollInterval this1 = connectionPollInterval this
       \<and> userDataDir this1 = userDataDir this \<and> opts this1 = opts this
       \<and> outFile this1 = outFile this \<and> errFile this1 = errFile this
       \<and> dirs w1 = dirs w \<and> openFds w1 = openFds w
       \<and> (\<forall>p. files w p \<noteq> None \<longrightarrow> files w1 p \<noteq> None)
       \<and> (chrome this = None \<longrightarrow> pidFile this \<noteq> None \<longrightarrow>
            (\<forall>t. spawn_pid E t \<noteq> None) \<or> uncaughtExceptionHandler E \<longrightarrow> (\<exists>q. r = Resolved q))
       \<and> (chrome this = None \<longrightarrow>
            (requestedPort this \<noteq> 0 \<longrightarrow> port this \<noteq> None) \<longrightarrow> port this1 \<noteq> None)"
  using assms
  by (auto simp: spawnPromise_def Let_def spawn_def getRandomPort_def emit_def writeFileSync_def
      split: option.splits prod.splits if_splits)

subsection \<open>A launch on which no probe succeeds\<close>

lemma spawnProcess_exhaust:
  assumes fails: "\<And>w p. \<not> connects E w p"
    and pf: "pidFile this \<noteq> None"
    and ch: "chrome this = None"
    and pt: "requestedPort this \<noteq> 0 \<Longrightarrow> port this \<noteq> None"
    and n: "0 \<le> maxConnectionRetries this"
    and sp: "(\<forall>t. spawn_pid E t \<noteq> None) \<or> uncaughtExceptionHandler E"
    and log: "files w (in_dir (show_str (userDataDir this)) ''chrome-err.log'') \<noteq> None"
  shows "\<exists>this1 w1 pre p. spawnProcess E x this w = (Rejected ConnectionError, this1, w1)
           \<and> trace w1 = pre @ attempts (nat (maxConnectionRetries this)) (Connect (Some p))
                 (Delay (connectionPollInterval this))
               @ [Read (in_dir (show_str (userDataDir this)) ''chrome-err.log'')]"
proof -
  obtain r this1 w1 where s: "spawnPromise E x this w = (r, this1, w1)"
    by (cases "spawnPromise E x this w")
  from spawnPromise_fields [OF s] pf ch pt sp log
  obtain q p where r: "r = Resolved q" and p: "port this1 = Some p"
    and same: "maxConnectionRetries this1 = maxConnectionRetries this"
      "connectionPollInterval this1 = connectionPollInterval this"
      "userDataDir this1 = userDataDir this"
    and log1: "files w1 (in_dir (show_str (userDataDir this)) ''chrome-err.log'') \<noteq> None"
    by auto
  have le: "int 0 \<le> maxConnectionRetries this1" using n same by simp
  have log1': "files w1 (in_dir (show_str (userDataDir this1)) ''chrome-err.log'') \<noteq> None"
    using log1 same by simp
  have "waitUntilReady E this1 w1 =
      (Rejected ConnectionError,
       w1\<lparr>trace := trace w1
          @ attempts (nat (maxConnectionRetries this)) (Connect (Some p))
              (Delay (connectionPollInterval this))
          @ [Read (in_dir (show_str (userDataDir this)) ''chrome-err.log'')]\<rparr>)"
    using poll_exhaust [of this1 E _ 0 w1, OF fails refl le log1'] same p
    by (simp add: waitUntilReady_def)
  then have "spawnProcess E x this w =
      (Rejected ConnectionError, this1,
       w1\<lparr>trace := trace w1
          @ attempts (nat (maxConnectionRetries this)) (Connect (Some p))
              (Delay (connectionPollInterval this))
          @ [Read (in_dir (show_str (userDataDir this)) ''chrome-err.log'')]\<rparr>)"
    using s r by (simp add: spawnProcess_def)
  moreover have "trace (w1\<lparr>trace := trace w1
          @ attempts (nat (maxConnectionRetries this)) (Connect (Some p))
              (Delay (connectionPollInterval this))
          @ [Read (in_dir (show_str (userDataDir this)) ''chrome-err.log'')]\<rparr>)
      = trace w1 @ attempts (nat (maxConnectionRetries this)) (Connect (Some p))
              (Delay (connectionPollInterval this))
          @ [Read (in_dir (show_str (userDataDir this)) ''chrome-err.log'')]"
    by simp
  ultimately show ?thesis by blast
qed

lemma launch_new_chrome_exhaust:
  assumes fails: "\<And>w p. \<not> connects E w p"
    and "chromePath this \<noteq> None
         \<or> (\<exists>i. getFirstInstallation E = Inr (Some i) \<and> i \<noteq> [])"
    and "getPlatform E \<in> set SUPPORTED_PLATFORMS"
    and "truthy_str (userDataDir this) \<Longrightarrow> show_str (userDataDir this) \<in> set (dirs w)"
    and "\<not> tmpDirandPidFileReady this"
    and "chrome this = None"
    and "requestedPort this \<noteq> 0 \<Longrightarrow> port this \<noteq> None"
    and "0 \<le> maxConnectionRetries this"
    and sp: "(\<forall>t. spawn_pid E t \<noteq> None) \<or> uncaughtExceptionHandler E"
  shows "\<exists>this' w' pre p logf. launch_new_chrome E this w = (Rejected ConnectionError, this', w')
           \<and> trace w' = pre @ attempts (nat (maxConnectionRetries this)) (Connect (Some p))
                 (Delay (connectionPollInterval this)) @ [Read logf]"
proof -
  obtain this1 where t1: "(case chromePath this of
              None \<Rightarrow>
                (case getFirstInstallation E of
                   Inl e \<Rightarrow> Inl e
                 | Inr installation \<Rightarrow>
                     if \<not> truthy_str installation then Inl ChromeNotInstalledError
                     else Inr (this\<lparr>chromePath := installation\<rparr>))
            | Some p \<Rightarrow> Inr this) = Inr this1"
    and same: "userDataDir this1 = userDataDir this"
      "tmpDirandPidFileReady this1 = tmpDirandPidFileReady this"
      "chrome this1 = chrome this" "port this1 = port this"
      "requestedPort this1 = requestedPort this"
      "maxConnectionRetries this1 = maxConnectionRetries this"
      "connectionPollInterval this1 = connectionPollInterval this"
    using assms(2) by (cases "chromePath this") (auto simp: truthy_str_def)
  from prepare_ok [of E this1 w] assms(3,4) same
  obtain this2 w2 where p: "prepare E this1 w = (Inr (), this2, w2)" by auto
  from prepare_fields [OF p] same assms(6,7,8)
  obtain d where f2: "pidFile this2 \<noteq> None" "chrome this2 = None"
    "requestedPort this2 \<noteq> 0 \<Longrightarrow> port this2 \<noteq> None"
    "0 \<le> maxConnectionRetries this2"
    and f3: "maxConnectionRetries this2 = maxConnectionRetries this"
    "connectionPollInterval this2 = connectionPollInterval this"
    and d: "userDataDir this2 = Some d" "files w2 (in_dir d ''chrome-err.log'') \<noteq> None"
    by auto
  have log: "files w2 (in_dir (show_str (userDataDir this2)) ''chrome-err.log'') \<noteq> None"
    using d by (simp add: show_str_def)
  from spawnProcess_exhaust [of E this2 w2 "show_str (chromePath this2)",
      OF fails f2(1-4) sp log]
  obtain this3 w3 pre q where
    s: "spawnProcess E (show_str (chromePath this2)) this2 w2
          = (Rejected ConnectionError, this3, w3)"
    and t: "trace w3 = pre @ attempts (nat (maxConnectionRetries this2)) (Connect (Some q))
                 (Delay (connectionPollInterval this2))
               @ [Read (in_dir (show_str (userDataDir this2)) ''chrome-err.log'')]"
    by blast
  have "launch_new_chrome E this w = (Rejected ConnectionError, this3, w3)"
    using t1 p s same assms(5) by (simp add: launch_new_chrome_def)
  moreover have "trace w3 = pre @ attempts (nat (maxConnectionRetries this)) (Connect (Some q))
                 (Delay (connectionPollInterval this))
               @ [Read (in_dir (show_str (userDataDir this2)) ''chrome-err.log'')]"
    using t f3 by simp
  ultimately show ?thesis by blast
qed

lemma launch_exhaust:
  assumes fails: "\<And>w p. \<not> connects E w p"
    and "opt_userDataDir opt \<noteq> Some (Flag True)"
    and "opt_chromePath opt \<noteq> None
         \<or> (\<exists>i. getFirstInstallation E = Inr (Some i) \<and> i \<noteq> [])"
    and "getPlatform E \<in> set SUPPORTED_PLATFORMS"
    and "\<And>d. opt_userDataDir opt = Some (Path d) \<Longrightarrow> d \<noteq> [] \<Longrightarrow> d \<in> set (dirs (world s))"
    and "opt_maxConnectionRetries opt = Some n" and "0 \<le> n"
    and sp: "(\<forall>t. spawn_pid E t \<noteq> None) \<or> uncaughtExceptionHandler E"
  shows "\<exists>s' pre p logf. launch E opt s = (Rejected ConnectionError, s')
           \<and> trace (world s') = pre @ attempts (nat n) (Connect (Some p))
                 (Delay (defaults (opt_connectionPollInterval opt) 500)) @ [Read logf]"
proof -
  let ?opt = "opt\<lparr>opt_handleSIGINT := Some (defaults (opt_handleSIGINT opt) True)\<rparr>"
  from constructor_cases [of ?opt] assms(2)
  obtain inst where c: "Launcher_constructor ?opt = Inr inst"
    and cp: "chromePath inst = opt_chromePath ?opt"
    and nr: "\<not> tmpDirandPidFileReady inst"
    and ch: "chrome inst = None"
    and mx: "maxConnectionRetries inst = defaults (opt_maxConnectionRetries ?opt) 50"
    and iv: "connectionPollInterval inst = defaults (opt_connectionPollInterval ?opt) 500"
    and ud: "userDataDir inst = (case opt_userDataDir ?opt of Some (Path p) \<Rightarrow> Some p | _ \<Rightarrow> None)"
    by auto
  have mx': "maxConnectionRetries inst = n" using mx assms(6) by (simp add: defaults_def)
  have dir: "truthy_str (userDataDir inst) \<Longrightarrow> show_str (userDataDir inst) \<in> set (dirs (world s))"
    using ud assms(5)
    by (auto simp: truthy_str_def show_str_def split: option.splits user_data_dir.splits)
  have "\<exists>i1 w1 pre p logf. Launcher_launch E inst (world s) = (Rejected ConnectionError, i1, w1)
          \<and> trace w1 = pre @ attempts (nat n) (Connect (Some p))
                 (Delay (defaults (opt_connectionPollInterval opt) 500)) @ [Read logf]"
  proof (cases "requestedPort inst \<noteq> 0")
    case True
    let ?i = "inst\<lparr>port := Some (requestedPort inst)\<rparr>"
    have "\<exists>this' w' pre p logf.
        launch_new_chrome E ?i (emit (Connect (port ?i)) (world s))
          = (Rejected ConnectionError, this', w')
        \<and> trace w' = pre @ attempts (nat (maxConnectionRetries ?i)) (Connect (Some p))
                 (Delay (connectionPollInterval ?i)) @ [Read logf]"
      using cp nr dir ch mx' assms(3,4,7) sp
      by (intro launch_new_chrome_exhaust [OF fails]) (simp_all add: emit_def)
    then show ?thesis
      using True isDebuggerReady_fails [of ?i E "world s", OF fails] mx' iv
      by (simp add: Launcher_launch_def Let_def)
  next
    case False
    have "\<exists>this' w' pre p logf.
        launch_new_chrome E inst (world s) = (Rejected ConnectionError, this', w')
        \<and> trace w' = pre @ attempts (nat (maxConnectionRetries inst)) (Connect (Some p))
                 (Delay (connectionPollInterval inst)) @ [Read logf]"
      using cp nr dir ch mx' assms(3,4,7) False sp
      by (intro launch_new_chrome_exhaust [OF fails]) simp_all
    then show ?thesis
      using False mx' iv by (simp add: Launcher_launch_def)
  qed
  then obtain i1 w1 pre p logf
    where "Launcher_launch E inst (world s) = (Rejected ConnectionError, i1, w1)"
      and "trace w1 = pre @ attempts (nat n) (Connect (Some p))
                 (Delay (defaults (opt_connectionPollInterval opt) 500)) @ [Read logf]"
    by blast
  then have "\<exists>s'. launch E opt s = (Rejected ConnectionError, s') \<and> world s' = w1"
    using c by (simp add: launch_def Let_def)
  with \<open>trace w1 = _\<close> show ?thesis by auto
qed

section \<open>The claims\<close>

text \<open>
  Claim C3. With \<^verbatim>\<open>maxConnectionRetries\<close> = \<open>n\<close> \<open>\<ge> 0\<close> and a port on which every
  readiness probe fails, \<^verbatim>\<open>waitUntilReady\<close> makes exactly \<open>n + 1\<close> connection attempts,
  waits \<^verbatim>\<open>connectionPollInterval\<close> between two consecutive attempts, reads the error
  log that \<^verbatim>\<open>prepare\<close> created and rejects with the connection error; for \<open>n = 2\<close>
  these are three attempts. A launch of a valid configuration, on a host where the
  process is started (or the host program survives the failed start) and no port answers,
  rejects with that error, and the last events of its trace are these attempts.
\<close>

theorem waitUntilReady_retry_exhaustion:
  "(0 \<le> maxConnectionRetries this \<and> (\<forall>w p. port this = Some p \<longrightarrow> \<not> connects E w p)
      \<and> files w (in_dir (show_str (userDataDir this)) ''chrome-err.log'') \<noteq> None
    \<longrightarrow> waitUntilReady E this w =
          (Rejected ConnectionError,
           w\<lparr>trace := trace w
              @ attempts (nat (maxConnectionRetries this)) (Connect (port this))
                  (Delay (connectionPollInterval this))
              @ [Read (in_dir (show_str (userDataDir this)) ''chrome-err.log'')]\<rparr>)
        \<and> probes_in (attempts (nat (maxConnectionRetries this)) (Connect (port this))
                  (Delay (connectionPollInterval this))) = nat (maxConnectionRetries this) + 1
        \<and> (maxConnectionRetries this = 2 \<longrightarrow>
             attempts (nat (maxConnectionRetries this)) (Connect (port this))
                  (Delay (connectionPollInterval this))
             = [Connect (port this), Delay (connectionPollInterval this),
                Connect (port this), Delay (connectionPollInterval this),
                Connect (port this)]))
   \<and> (0 \<le> n \<and> opt_maxConnectionRetries opt = Some n \<and> (\<forall>w p. \<not> connects E w p)
        \<and> ((\<forall>t. spawn_pid E t \<noteq> None) \<or> uncaughtExceptionHandler E)
        \<and> opt_userDataDir opt \<noteq> Some (Flag True)
        \<and> (opt_chromePath opt \<noteq> None
             \<or> (\<exists>i. getFirstInstallation E = Inr (Some i) \<and> i \<noteq> []))
        \<and> getPlatform E \<in> set SUPPORTED_PLATFORMS
        \<and> (\<forall>d. opt_userDataDir opt = Some (Path d) \<longrightarrow> d \<noteq> [] \<longrightarrow> d \<in> set (dirs (world s)))
      \<longrightarrow> (\<exists>s' pre p logf. launch E opt s = (Rejected ConnectionError, s')
             \<and> trace (world s') = pre @ attempts (nat n) (Connect (Some p))
                 (Delay (defaults (opt_connectionPollInterval opt) 500)) @ [Read logf]))"
proof (intro conjI impI)
  assume a: "0 \<le> maxConnectionRetries this
      \<and> (\<forall>w p. port this = Some p \<longrightarrow> \<not> connects E w p)
      \<and> files w (in_dir (show_str (userDataDir this)) ''chrome-err.log'') \<noteq> None"
  then have le: "int 0 \<le> maxConnectionRetries this" by simp
  from a have fails: "\<And>w p. port this = Some p \<Longrightarrow> \<not> connects E w p" by blast
  from a have log: "files w (in_dir (show_str (userDataDir this)) ''chrome-err.log'') \<noteq> None"
    by blast
  show "waitUntilReady E this w =
          (Rejected ConnectionError,
           w\<lparr>trace := trace w
              @ attempts (nat (maxConnectionRetries this)) (Connect (port this))
                  (Delay (connectionPollInterval this))
              @ [Read (in_dir (show_str (userDataDir this)) ''chrome-err.log'')]\<rparr>)"
    using poll_exhaust [of this E _ 0 w, OF fails refl le log]
    by (simp add: waitUntilReady_def)
  show "probes_in (attempts (nat (maxConnectionRetries this)) (Connect (port this))
                  (Delay (connectionPollInterval this))) = nat (maxConnectionRetries this) + 1"
    by (rule probes_in_attempts)
next
  assume "maxConnectionRetries this = 2"
  then show "attempts (nat (maxConnectionRetries this)) (Connect (port this))
                  (Delay (connectionPollInterval this))
             = [Connect (port this), Delay (connectionPollInterval this),
                Connect (port this), Delay (connectionPollInterval this),
                Connect (port this)]"
    by (simp add: attempts_2)
next
  assume a: "0 \<le> n \<and> opt_maxConnectionRetries opt = Some n \<and> (\<forall>w p. \<not> connects E w p)
        \<and> ((\<forall>t. spawn_pid E t \<noteq> None) \<or> uncaughtExceptionHandler E)
        \<and> opt_userDataDir opt \<noteq> Some (Flag True)
        \<and> (opt_chromePath opt \<noteq> None
             \<or> (\<exists>i. getFirstInstallation E = Inr (Some i) \<and> i \<noteq> []))
        \<and> getPlatform E \<in> set SUPPORTED_PLATFORMS
        \<and> (\<forall>d. opt_userDataDir opt = Some (Path d) \<longrightarrow> d \<noteq> [] \<longrightarrow> d \<in> set (dirs (world s)))"
  then have fails: "\<And>w p. \<not> connects E w p" by blast
  show "\<exists>s' pre p logf. launch E opt s = (Rejected ConnectionError, s')
             \<and> trace (world s') = pre @ attempts (nat n) (Connect (Some p))
                 (Delay (defaults (opt_connectionPollInterval opt) 500)) @ [Read logf]"
    using launch_exhaust [of E opt s n, OF fails] a by blast
qed

theorem waitUntilReady_retry_exhaustion_witness:
  "waitUntilReady env_dead (L1\<lparr>maxConnectionRetries := 2\<rparr>) W1 =
     (Rejected ConnectionError,
      W1\<lparr>trace := trace W1 @ [Connect (Some 9333), Delay 500, Connect (Some 9333), Delay 500,
                   Connect (Some 9333), Read ''/tmp/lh/chrome-err.log'']\<rparr>)
   \<and> (\<exists>s' pre p logf.
        launch env_dead (opts0\<lparr>opt_maxConnectionRetries := Some 2\<rparr>) s0
          = (Rejected ConnectionError, s')
        \<and> trace (world s') = pre @ [Connect (Some p), Delay 500, Connect (Some p), Delay 500,
                                     Connect (Some p)] @ [Read logf])"
  using waitUntilReady_retry_exhaustion
    [of "L1\<lparr>maxConnectionRetries := 2\<rparr>" env_dead W1 2
        "opts0\<lparr>opt_maxConnectionRetries := Some 2\<rparr>" s0]
  by (simp add: env_dead_def env0_def L1_def W1_def inst0_def blank_def opts0_def w0_def s0_def
      Launcher_constructor_def getFirstInstallation_def
      defaults_def one_or_many_def SUPPORTED_PLATFORMS_def truthy_str_def show_str_def
      in_dir_def attempts_2)

text \<open>
  Claim C9. With \<^verbatim>\<open>userDataDir: true\<close> the constructor throws
  \<^verbatim>\<open>InvalidUserDataDirectoryError\<close>, and \<^verbatim>\<open>launch\<close> rejects with it leaving the
  whole state as it was: nothing is registered, no directory is created, no file is
  opened and no process is spawned.
\<close>

theorem userDataDir_true_rejected:
  assumes "opt_userDataDir opt = Some (Flag True)"
  shows "Launcher_constructor opt = Inl InvalidUserDataDirectoryError
       \<and> launch E opt s = (Rejected InvalidUserDataDirectoryError, s)"
  using assms by (simp add: Launcher_constructor_def launch_def Let_def)

theorem userDataDir_true_rejected_witness:
  "Launcher_constructor (opts0\<lparr>opt_userDataDir := Some (Flag True)\<rparr>)
     = Inl InvalidUserDataDirectoryError
   \<and> launch env0 (opts0\<lparr>opt_userDataDir := Some (Flag True)\<rparr>) s0
     = (Rejected InvalidUserDataDirectoryError, s0)"
  using userDataDir_true_rejected [of "opts0\<lparr>opt_userDataDir := Some (Flag True)\<rparr>" env0 s0]
  by simp

text \<open>
  Claim C6. The list built by the getter \<^verbatim>\<open>flags\<close> is the specification's composition
  \<open>spec_flags\<close>: default flags unless ignored, the debugging port, the sandbox flag exactly
  on Linux with defaults enabled, the profile directory unless the default profile is
  used, the extra flags, the starting URLs. For the configuration with port 9222, extra
  flag \<^verbatim>\<open>--foo\<close> and starting URL \<^verbatim>\<open>https://example.com\<close> on a platform that is neither
  Linux nor WSL it is the five-part list of the specification.
\<close>

theorem flags_order:
  "flags E this = spec_flags E this
   \<and> (\<not> ignoreDefaultFlags this \<and> port this = Some 9222 \<and> chromeFlags this = [''--foo'']
        \<and> startingUrl this = [''https://example.com''] \<and> getPlatform E \<noteq> Linux
        \<and> getPlatform E \<noteq> Wsl \<and> \<not> useDefaultProfile this \<and> userDataDir this = Some tmpdir
      \<longrightarrow> flags E this = DEFAULT_FLAGS E @ [''--remote-debugging-port=9222'',
             ''--user-data-dir='' @ tmpdir, ''--foo'', ''https://example.com''])"
  by (simp add: flags_def spec_flags_def push_def hostPath_def isWsl_def Let_def show_num_def
      show_str_def string_of_nat_9222)

theorem flags_order_witness:
  "flags env0 (blank\<lparr>port := Some 9222, chromeFlags := [''--foo''],
       startingUrl := [''https://example.com''], userDataDir := Some ''/tmp/lh''\<rparr>)
   = [''--disable-sync'', ''--remote-debugging-port=9222'', ''--user-data-dir=/tmp/lh'',
      ''--foo'', ''https://example.com'']"
  using flags_order [THEN conjunct2, of "blank\<lparr>port := Some 9222, chromeFlags := [''--foo''],
       startingUrl := [''https://example.com''], userDataDir := Some ''/tmp/lh''\<rparr>" env0
       "''/tmp/lh''"]
  by (simp add: env0_def blank_def opts0_def Launcher_constructor_def defaults_def
      one_or_many_def)

text \<open>
  Claim C5. When a non-zero port is requested and a listener answers on it, the launch
  resolves, the handle carries the requested port, and the world differs from the one
  before only by the recorded connection attempt: no directory is created, no file is
  opened and no process is spawned.
\<close>

theorem launch_reuses_listening_port:
  assumes "opt_port opt = Some p" and "p \<noteq> 0" and "connects E (world s) p"
    and "opt_userDataDir opt \<noteq> Some (Flag True)"
  shows "\<exists>h s'. launch E opt s = (Resolved h, s') \<and> lc_port h = Some p
           \<and> world s' = emit (Connect (Some p)) (world s)"
proof -
  let ?opt = "opt\<lparr>opt_handleSIGINT := Some (defaults (opt_handleSIGINT opt) True)\<rparr>"
  from constructor_cases [of ?opt] assms(4)
  obtain inst where c: "Launcher_constructor ?opt = Inr inst"
    and r: "requestedPort inst = defaults (opt_port ?opt) 0"
    by auto
  from r assms(1) have rp: "requestedPort inst = p" by (simp add: defaults_def)
  have "Launcher_launch E inst (world s) =
      (Resolved (), inst\<lparr>port := Some p\<rparr>, emit (Connect (Some p)) (world s))"
    using Launcher_launch_reuse [of inst E "world s"] rp assms(2,3) by simp
  then show ?thesis
    using c by (simp add: launch_def Let_def)
qed

theorem launch_reuses_listening_port_witness:
  "\<exists>h s'. launch env_listening (opts0\<lparr>opt_port := Some 9222\<rparr>) s0 = (Resolved h, s')
     \<and> lc_port h = Some 9222
     \<and> dirs (world s') = [''/data''] \<and> openFds (world s') = []
     \<and> trace (world s') = [Connect (Some 9222)]"
  using launch_reuses_listening_port [of "opts0\<lparr>opt_port := Some 9222\<rparr>" 9222 env_listening s0]
  by (auto simp: env_listening_def env0_def opts0_def s0_def w0_def emit_def)

text \<open>
  Claim C10. When a non-zero port is requested and the first probe succeeds, the handle
  that \<^verbatim>\<open>launch\<close> returns has no pid and no process, and the registered instance has no
  child process.
\<close>

theorem reused_port_handle_has_no_process:
  assumes "opt_port opt = Some p" and "p \<noteq> 0" and "connects E (world s) p"
    and "opt_userDataDir opt \<noteq> Some (Flag True)"
  shows "\<exists>h s'. launch E opt s = (Resolved h, s') \<and> lc_pid h = None \<and> lc_process h = None
           \<and> chrome (objects s' (lc_kill h)) = None"
proof -
  let ?opt = "opt\<lparr>opt_handleSIGINT := Some (defaults (opt_handleSIGINT opt) True)\<rparr>"
  from constructor_cases [of ?opt] assms(4)
  obtain inst where c: "Launcher_constructor ?opt = Inr inst"
    and r: "requestedPort inst = defaults (opt_port ?opt) 0"
    and n: "chrome inst = None" "pid inst = None"
    by auto
  from r assms(1) have rp: "requestedPort inst = p" by (simp add: defaults_def)
  have "Launcher_launch E inst (world s) =
      (Resolved (), inst\<lparr>port := Some p\<rparr>, emit (Connect (Some p)) (world s))"
    using Launcher_launch_reuse [of inst E "world s"] rp assms(2,3) by simp
  then show ?thesis
    using c n by (simp add: launch_def Let_def)
qed

theorem reused_port_handle_has_no_process_witness:
  "\<exists>h s'. launch env_listening (opts0\<lparr>opt_port := Some 9222\<rparr>) s0 = (Resolved h, s')
     \<and> lc_pid h = None \<and> lc_process h = None"
  using reused_port_handle_has_no_process
    [of "opts0\<lparr>opt_port := Some 9222\<rparr>" 9222 env_listening s0]
  by (auto simp: env_listening_def env0_def opts0_def s0_def)

subsection \<open>Killing one launcher\<close>

lemma terminate_frame:
  assumes "terminate E c w = (m, w1)"
  shows "dirs w1 = dirs w \<and> files w1 = files w \<and> openFds w1 = openFds w"
  using assms by (auto simp: terminate_def Let_def emit_def split: if_splits option.splits)

lemma terminate_outcome_indep: "fst (terminate E c w) = fst (terminate E c w')"
  by (simp add: terminate_def Let_def split: option.splits)

lemma destroyTmp_chrome: "chrome (fst (destroyTmp this w)) = chrome this"
  by (simp add: destroyTmp_def Let_def split: prod.splits)

lemma destroyTmp_supplied:
  assumes "opt_userDataDir (opts this) \<noteq> None"
  shows "destroyTmp this w = (this, w)"
  using assms by (simp add: destroyTmp_def)

lemma destroyTmp_generated:
  assumes "userDataDir this = Some d" and "opt_userDataDir (opts this) = None"
    and "destroyTmp this w = (this', w')"
  shows "\<forall>p. under d p \<longrightarrow> p \<notin> set (dirs w') \<and> files w' p = None"
  using assms
  by (auto simp: destroyTmp_def Let_def rm_def emit_def closeSync_def show_str_def
      split: if_splits)

lemma kill_None: "chrome this = None \<Longrightarrow> kill E this w = (Resolved (), this, w)"
  by (simp add: kill_def)

lemma kill_Some:
  assumes "chrome this = Some c"
  shows "kill E this w =
    (case terminate E c w of
       (Raised msg, w1) \<Rightarrow> (Rejected (Error (''Chrome could not be killed '' @ msg)), this, w1)
     | (Sent, w1) \<Rightarrow> (Resolved (), destroyTmp (this\<lparr>chrome := None\<rparr>) w1)
     | (NotSent, w1) \<Rightarrow> (Unsettled, this, w1))"
  using assms by (simp add: kill_def Let_def split: prod.splits request.splits)

lemma kill_outcome_indep: "fst (kill E this w) = fst (kill E this w')"
proof (cases "chrome this")
  case None
  then show ?thesis by (simp add: kill_None)
next
  case (Some c)
  obtain m w1 where t: "terminate E c w = (m, w1)" by (cases "terminate E c w")
  obtain m' w1' where t': "terminate E c w' = (m', w1')" by (cases "terminate E c w'")
  from terminate_outcome_indep [of E c w w'] t t' have "m' = m" by simp
  then show ?thesis
    using Some t t' by (simp add: kill_Some split: request.splits)
qed

lemma kill_unresolved_same:
  assumes "kill E this w = (r, this', w')" and "r \<noteq> Resolved ()"
  shows "this' = this"
  using assms
  by (auto simp: kill_def Let_def split: option.splits prod.splits request.splits)

lemma kill_Resolved_chrome:
  assumes "kill E this w = (Resolved u, this', w')"
  shows "chrome this' = None"
proof (cases "chrome this")
  case None
  then show ?thesis using assms by (simp add: kill_None)
next
  case (Some c)
  obtain m w1 where t: "terminate E c w = (m, w1)" by (cases "terminate E c w")
  with assms Some have "this' = fst (destroyTmp (this\<lparr>chrome := None\<rparr>) w1)"
    by (auto simp: kill_Some split: request.splits)
  then show ?thesis by (simp add: destroyTmp_chrome)
qed

text \<open>A kill is left pending exactly by a child that gets no termination request.\<close>

lemma kill_Unsettled_iff:
  "fst (kill E this w) = Unsettled \<longleftrightarrow>
     (\<exists>c. chrome this = Some c \<and> \<not> isWindows E \<and> \<not> truthy_num (cpid c))"
proof (cases "chrome this")
  case None
  then show ?thesis by (simp add: kill_None)
next
  case (Some c)
  then show ?thesis
    by (auto simp: kill_Some terminate_def raised_def truthy_num_def Let_def
        split: option.splits prod.splits request.splits if_splits)
qed

subsection \<open>The loop of killAll\<close>

lemma kill_fails_cong:
  "objects s1 j = objects s j \<Longrightarrow> kill_fails E s1 j = kill_fails E s j"
  using kill_outcome_indep [of E "objects s j" "world s1" "world s"]
  by (simp add: kill_fails_def)

lemma kill_err_cong:
  "objects s1 j = objects s j \<Longrightarrow> kill_err E s1 j = kill_err E s j"
  using kill_outcome_indep [of E "objects s j" "world s1" "world s"]
  by (simp add: kill_err_def)

lemma kill_pending_cong:
  "objects s1 j = objects s j \<Longrightarrow> kill_pending E s1 j = kill_pending E s j"
  using kill_outcome_indep [of E "objects s j" "world s1" "world s"]
  by (simp add: kill_pending_def)

lemma kill_fails_no_child:
  "chrome (objects s j) = None \<Longrightarrow> \<not> kill_fails E s j"
  by (simp add: kill_fails_def kill_None rejection_def)

lemma kill_pending_no_child:
  "chrome (objects s j) = None \<Longrightarrow> \<not> kill_pending E s j"
  by (simp add: kill_pending_def kill_None)

text \<open>\<^verbatim>\<open>killAll\<close> never rejects and never touches the SIGINT listener.\<close>

lemma killAll_loop_never_rejects: "fst (killAll_loop E js errs s) \<noteq> Rejected e"
proof (induction js arbitrary: errs s)
  case Nil
  show ?case by simp
next
  case (Cons i rest)
  obtain r inst1 w1 where k: "kill E (objects s i) (world s) = (r, inst1, w1)"
    by (cases "kill E (objects s i) (world s)")
  show ?case using k Cons.IH by (cases r) simp_all
qed

lemma killAll_never_rejects: "fst (killAll E s) \<noteq> Rejected e"
  by (simp add: killAll_def killAll_loop_never_rejects)

lemma killAll_loop_keeps_listeners:
  "sigintListeners (snd (killAll_loop E js errs s)) = sigintListeners s"
proof (induction js arbitrary: errs s)
  case Nil
  show ?case by simp
next
  case (Cons i rest)
  obtain r inst1 w1 where k: "kill E (objects s i) (world s) = (r, inst1, w1)"
    by (cases "kill E (objects s i) (world s)")
  show ?case using k Cons.IH by (cases r) simp_all
qed

lemma killAll_keeps_listeners:
  "sigintListeners (snd (killAll E s)) = sigintListeners s"
  by (simp add: killAll_def killAll_loop_keeps_listeners)

text \<open>The loop when every kill it awaits settles.\<close>

lemma killAll_loop_spec:
  assumes "killAll_loop E js errs s = (r, s')"
    and "\<forall>j \<in> set js. \<not> kill_pending E s j"
  shows "r = Resolved (errs @ map (kill_err E s) (filter (kill_fails E s) js))
       \<and> instances s' = filter (\<lambda>j. j \<notin> set js \<or> kill_fails E s j) (instances s)
       \<and> (\<forall>j. j \<notin> set js \<or> kill_fails E s j \<longrightarrow> objects s' j = objects s j)
       \<and> (\<forall>j \<in> set js. \<not> kill_fails E s j \<longrightarrow> chrome (objects s' j) = None)"
  using assms
proof (induction js arbitrary: errs s)
  case Nil
  then show ?case by auto
next
  case (Cons i rest)
  obtain ri inst1 w1 where k: "kill E (objects s i) (world s) = (ri, inst1, w1)"
    by (cases "kill E (objects s i) (world s)")
  have np: "ri \<noteq> Unsettled"
    using Cons.prems(2) k by (simp add: kill_pending_def)
  show ?case
  proof (cases ri)
    case Unsettled
    with np show ?thesis by simp
  next
    case (Resolved u)
    let ?s1 = "s\<lparr>objects := (objects s)(i := inst1), world := w1,
                  instances := set_delete i (instances s)\<rparr>"
    have nf: "\<not> kill_fails E s i" using k Resolved by (simp add: kill_fails_def rejection_def)
    have c1: "chrome inst1 = None" using k Resolved kill_Resolved_chrome by blast
    have same: "\<And>j. kill_fails E ?s1 j = kill_fails E s j"
    proof -
      fix j
      show "kill_fails E ?s1 j = kill_fails E s j"
      proof (cases "j = i")
        case True
        then show ?thesis using nf c1 kill_fails_no_child [of ?s1 i E] by simp
      next
        case False
        then show ?thesis by (intro kill_fails_cong) simp
      qed
    qed
    have pend: "\<forall>j \<in> set rest. \<not> kill_pending E ?s1 j"
    proof
      fix j
      assume j: "j \<in> set rest"
      show "\<not> kill_pending E ?s1 j"
      proof (cases "j = i")
        case True
        then show ?thesis using c1 kill_pending_no_child [of ?s1 i E] by simp
      next
        case False
        then have "kill_pending E ?s1 j = kill_pending E s j"
          by (intro kill_pending_cong) simp
        then show ?thesis using Cons.prems(2) j by simp
      qed
    qed
    have same_err: "\<And>j. j \<noteq> i \<Longrightarrow> kill_err E ?s1 j = kill_err E s j"
      by (intro kill_err_cong) simp
    from Cons.prems(1) k Resolved have "killAll_loop E rest errs ?s1 = (r, s')" by simp
    from Cons.IH [OF this pend]
    have ih: "r = Resolved (errs @ map (kill_err E ?s1) (filter (kill_fails E s) rest))"
      "instances s' = filter (\<lambda>j. j \<notin> set rest \<or> kill_fails E s j) (instances ?s1)"
      "\<forall>j. j \<notin> set rest \<or> kill_fails E s j \<longrightarrow> objects s' j = objects ?s1 j"
      "\<forall>j \<in> set rest. \<not> kill_fails E s j \<longrightarrow> chrome (objects s' j) = None"
      by (simp_all add: same)
    have "filter (\<lambda>j. j \<notin> set rest \<or> kill_fails E s j) (removeAll i (instances s))
        = filter (\<lambda>j. i \<noteq> j \<and> (j \<notin> set rest \<or> kill_fails E s j)) (instances s)"
      by (simp add: removeAll_filter_not_eq)
    also have "\<dots> = filter (\<lambda>j. j \<notin> set (i # rest) \<or> kill_fails E s j) (instances s)"
    proof (rule filter_cong [OF refl])
      fix j
      show "(i \<noteq> j \<and> (j \<notin> set rest \<or> kill_fails E s j))
          = (j \<notin> set (i # rest) \<or> kill_fails E s j)"
        using nf by (cases "j = i") auto
    qed
    finally have g1:
      "instances s' = filter (\<lambda>j. j \<notin> set (i # rest) \<or> kill_fails E s j) (instances s)"
      using ih(2) by (simp add: set_delete_def)
    have "map (kill_err E ?s1) (filter (kill_fails E s) rest)
        = map (kill_err E s) (filter (kill_fails E s) rest)"
    proof (rule map_cong [OF refl])
      fix j
      assume "j \<in> set (filter (kill_fails E s) rest)"
      then have "j \<noteq> i" using nf by auto
      then show "kill_err E ?s1 j = kill_err E s j" by (rule same_err)
    qed
    then have g2: "r = Resolved (errs @ map (kill_err E s) (filter (kill_fails E s) (i # rest)))"
      using ih(1) nf by simp
    have g4: "\<forall>j. j \<notin> set (i # rest) \<or> kill_fails E s j \<longrightarrow> objects s' j = objects s j"
    proof (intro allI impI)
      fix j
      assume a: "j \<notin> set (i # rest) \<or> kill_fails E s j"
      then have "j \<noteq> i" using nf by auto
      moreover from a have "j \<notin> set rest \<or> kill_fails E s j" by auto
      ultimately show "objects s' j = objects s j" using ih(3) by simp
    qed
    have g5: "\<forall>j \<in> set (i # rest). \<not> kill_fails E s j \<longrightarrow> chrome (objects s' j) = None"
    proof (cases "i \<in> set rest")
      case True
      then show ?thesis using ih(4) by auto
    next
      case False
      with ih(3) have "objects s' i = inst1" by simp
      then have "chrome (objects s' i) = None" using c1 by simp
      then show ?thesis using ih(4) by simp
    qed
    show ?thesis by (intro conjI g1 g2 g4 g5)
  next
    case (Rejected e)
    let ?s1 = "s\<lparr>objects := (objects s)(i := inst1), world := w1\<rparr>"
    have f: "kill_fails E s i" "kill_err E s i = e"
      using k Rejected by (simp_all add: kill_fails_def kill_err_def rejection_def)
    have "inst1 = objects s i" using k Rejected kill_unresolved_same by blast
    then have obj: "objects ?s1 = objects s" by simp
    have same: "\<And>j. kill_fails E ?s1 j = kill_fails E s j"
      "\<And>j. kill_err E ?s1 j = kill_err E s j"
      "\<And>j. kill_pending E ?s1 j = kill_pending E s j"
      using obj by (intro kill_fails_cong kill_err_cong kill_pending_cong; simp)+
    have pend: "\<forall>j \<in> set rest. \<not> kill_pending E ?s1 j"
      using Cons.prems(2) same(3) by simp
    from Cons.prems(1) k Rejected
    have "killAll_loop E rest (push errs [e]) ?s1 = (r, s')" by simp
    from Cons.IH [OF this pend]
    have ih: "r = Resolved ((errs @ [e]) @ map (kill_err E s) (filter (kill_fails E s) rest))"
      "instances s' = filter (\<lambda>j. j \<notin> set rest \<or> kill_fails E s j) (instances s)"
      "\<forall>j. j \<notin> set rest \<or> kill_fails E s j \<longrightarrow> objects s' j = objects s j"
      "\<forall>j \<in> set rest. \<not> kill_fails E s j \<longrightarrow> chrome (objects s' j) = None"
      using obj by (simp_all add: same push_def)
    have "filter (\<lambda>j. j \<notin> set rest \<or> kill_fails E s j) (instances s)
        = filter (\<lambda>j. j \<notin> set (i # rest) \<or> kill_fails E s j) (instances s)"
    proof (rule filter_cong [OF refl])
      fix j
      show "(j \<notin> set rest \<or> kill_fails E s j) = (j \<notin> set (i # rest) \<or> kill_fails E s j)"
        using f(1) by (cases "j = i") auto
    qed
    then have g1:
      "instances s' = filter (\<lambda>j. j \<notin> set (i # rest) \<or> kill_fails E s j) (instances s)"
      using ih(2) by simp
    have g2: "r = Resolved (errs @ map (kill_err E s) (filter (kill_fails E s) (i # rest)))"
      using ih(1) f by simp
    have g4: "\<forall>j. j \<notin> set (i # rest) \<or> kill_fails E s j \<longrightarrow> objects s' j = objects s j"
      using ih(3) by simp
    have g5: "\<forall>j \<in> set (i # rest). \<not> kill_fails E s j \<longrightarrow> chrome (objects s' j) = None"
      using ih(4) f(1) by simp
    show ?thesis by (intro conjI g1 g2 g4 g5)
  qed
qed

text \<open>
  What \<^verbatim>\<open>killAll\<close> does on a registry in which every kill settles: it resolves; the
  instances that stay registered are exactly those whose kill rejected, in their order;
  the list has the error of each of them; an instance whose kill rejected is left as it
  was, and every other registered instance has lost its child process. With an empty
  registry the list is empty and the state is unchanged.
\<close>

lemma killAll_removes_exactly_killed:
  assumes "\<forall>i \<in> set (instances s). \<not> kill_pending E s i"
  shows "\<exists>errs s'. killAll E s = (Resolved errs, s')
     \<and> instances s' = filter (kill_fails E s) (instances s)
     \<and> errs = map (kill_err E s) (filter (kill_fails E s) (instances s))
     \<and> (\<forall>i \<in> set (instances s).
          if kill_fails E s i then objects s' i = objects s i
          else chrome (objects s' i) = None)
     \<and> (instances s = [] \<longrightarrow> killAll E s = (Resolved [], s))"
proof -
  obtain r s' where l: "killAll_loop E (instances s) [] s = (r, s')"
    by (cases "killAll_loop E (instances s) [] s")
  from killAll_loop_spec [OF l assms]
  have r: "r = Resolved (map (kill_err E s) (filter (kill_fails E s) (instances s)))"
    and a: "instances s' = filter (\<lambda>j. j \<notin> set (instances s) \<or> kill_fails E s j) (instances s)"
    and c: "\<forall>j. j \<notin> set (instances s) \<or> kill_fails E s j \<longrightarrow> objects s' j = objects s j"
    and d: "\<forall>j \<in> set (instances s). \<not> kill_fails E s j \<longrightarrow> chrome (objects s' j) = None"
    by simp_all
  have a': "instances s' = filter (kill_fails E s) (instances s)"
    unfolding a by (rule filter_cong [OF refl]) simp
  have e: "instances s = [] \<longrightarrow> killAll E s = (Resolved [], s)"
    by (simp add: killAll_def)
  have k: "killAll E s
      = (Resolved (map (kill_err E s) (filter (kill_fails E s) (instances s))), s')"
    using l r by (simp add: killAll_def)
  have f: "\<forall>i \<in> set (instances s).
          if kill_fails E s i then objects s' i = objects s i
          else chrome (objects s' i) = None"
    using c d by simp
  show ?thesis
    apply (rule exI [of _ "map (kill_err E s) (filter (kill_fails E s) (instances s))"])
    apply (rule exI [of _ s'])
    apply (intro conjI k a' refl f e)
    done
qed

subsection \<open>What a launch that spawned leaves behind\<close>

lemma spawnProcess_fields:
  assumes "spawnProcess E x this w = (r, this', w')"
  shows "userDataDir this' = userDataDir this \<and> opts this' = opts this
       \<and> outFile this' = outFile this \<and> errFile this' = errFile this
       \<and> dirs w' = dirs w \<and> openFds w' = openFds w"
proof -
  obtain r1 this1 w1 where sp: "spawnPromise E x this w = (r1, this1, w1)"
    by (cases "spawnPromise E x this w")
  note f = spawnPromise_fields [OF sp]
  show ?thesis
  proof (cases r1)
    case (Rejected e)
    then show ?thesis using assms sp f by (simp add: spawnProcess_def)
  next
    case Unsettled
    then show ?thesis using assms sp f by (simp add: spawnProcess_def)
  next
    case (Resolved q)
    obtain r2 w2 where wr: "waitUntilReady E this1 w1 = (r2, w2)"
      by (cases "waitUntilReady E this1 w1")
    from waitUntilReady_frame [OF wr] have "dirs w2 = dirs w1" "openFds w2 = openFds w1"
      by simp_all
    moreover have "this' = this1 \<and> w' = w2"
      using assms sp Resolved wr by (cases r2) (simp_all add: spawnProcess_def)
    ultimately show ?thesis using f by simp
  qed
qed

lemma launch_new_chrome_spawned:
  assumes "chrome this = None" and "\<not> tmpDirandPidFileReady this"
    and "launch_new_chrome E this w = (r, this', w')" and "chrome this' = Some c"
  shows "(\<exists>d. userDataDir this' = Some d \<and> d \<in> set (dirs w')) \<and> opts this' = opts this"
proof -
  define pre where "pre = (case chromePath this of
              None \<Rightarrow>
                (case getFirstInstallation E of
                   Inl e \<Rightarrow> Inl e
                 | Inr installation \<Rightarrow>
                     if \<not> truthy_str installation then Inl ChromeNotInstalledError
                     else Inr (this\<lparr>chromePath := installation\<rparr>))
            | Some p \<Rightarrow> Inr this)"
  show ?thesis
  proof (cases pre)
    case (Inl e)
    then have "this' = this"
      using assms(3) by (simp add: launch_new_chrome_def pre_def [symmetric])
    then show ?thesis using assms(1,4) by simp
  next
    case (Inr this1)
    then have same: "chrome this1 = chrome this" "opts this1 = opts this"
      "tmpDirandPidFileReady this1 = tmpDirandPidFileReady this"
      by (auto simp: pre_def split: option.splits sum.splits if_splits)
    obtain r2 this2 w2 where p: "prepare E this1 w = (r2, this2, w2)"
      by (cases "prepare E this1 w")
    note pf = prepare_fields [OF p]
    show ?thesis
    proof (cases r2)
      case (Inl e)
      then have "this' = this2"
        using assms(2,3) Inr p same
        by (simp add: launch_new_chrome_def pre_def [symmetric])
      then show ?thesis using pf same assms(1,4) \<open>r2 = Inl e\<close> by simp
    next
      case (Inr u)
      with pf obtain d where d: "userDataDir this2 = Some d" "d \<in> set (dirs w2)" by auto
      obtain r3 this3 w3 where
        s: "spawnProcess E (show_str (chromePath this2)) this2 w2 = (r3, this3, w3)"
        by (cases "spawnProcess E (show_str (chromePath this2)) this2 w2")
      note sf = spawnProcess_fields [OF s]
      have "userDataDir this' = userDataDir this3 \<and> opts this' = opts this3 \<and> w' = w3"
        using assms(2,3) \<open>pre = Inr this1\<close> p same Inr s
        by (cases r3) (auto simp: launch_new_chrome_def pre_def [symmetric])
      then show ?thesis using sf d pf same by simp
    qed
  qed
qed

lemma Launcher_launch_spawned:
  assumes "Launcher_constructor opt = Inr this0"
    and "Launcher_launch E this0 wa = (r, inst, w)"
    and "chrome inst = Some c"
  shows "(\<exists>d. userDataDir inst = Some d \<and> d \<in> set (dirs w)) \<and> opts inst = opt"
proof -
  from constructor_cases [of opt] assms(1)
  have f: "chrome this0 = None" "\<not> tmpDirandPidFileReady this0" "opts this0 = opt"
    by auto
  show ?thesis
  proof (cases "requestedPort this0 \<noteq> 0")
    case False
    then have "launch_new_chrome E this0 wa = (r, inst, w)"
      using assms(2) by (simp add: Launcher_launch_def)
    from launch_new_chrome_spawned [OF f(1,2) this assms(3)] f(3) show ?thesis by simp
  next
    case True
    let ?i = "this0\<lparr>port := Some (requestedPort this0)\<rparr>"
    obtain r1 w1 where d: "isDebuggerReady E ?i wa = (r1, w1)"
      by (cases "isDebuggerReady E ?i wa")
    show ?thesis
    proof (cases r1)
      case (Resolved u)
      then have "inst = ?i" using assms(2) True d by (simp add: Launcher_launch_def Let_def)
      then show ?thesis using f(1) assms(3) by simp
    next
      case Unsettled
      then have "inst = ?i" using assms(2) True d by (simp add: Launcher_launch_def Let_def)
      then show ?thesis using f(1) assms(3) by simp
    next
      case (Rejected e)
      then have l: "launch_new_chrome E ?i w1 = (r, inst, w)"
        using assms(2) True d by (simp add: Launcher_launch_def Let_def)
      have "chrome ?i = None" "\<not> tmpDirandPidFileReady ?i" using f by simp_all
      from launch_new_chrome_spawned [OF this l assms(3)] f(3) show ?thesis by simp
    qed
  qed
qed

lemma kill_resolved:
  assumes "chrome this = Some c" and "kill E this wk = (Resolved (), this', w')"
  shows "\<exists>w1. dirs w1 = dirs wk \<and> files w1 = files wk \<and> openFds w1 = openFds wk
           \<and> destroyTmp (this\<lparr>chrome := None\<rparr>) w1 = (this', w')"
proof -
  obtain m w1 where t: "terminate E c wk = (m, w1)" by (cases "terminate E c wk")
  from assms t have "m = Sent" "destroyTmp (this\<lparr>chrome := None\<rparr>) w1 = (this', w')"
    by (auto simp: kill_Some split: request.splits)
  with terminate_frame [OF t] show ?thesis by blast
qed

text \<open>
  The code decides by the option alone whether a resolved kill removes the user-data
  directory. Take any launcher constructed from a configuration, launched in any world,
  holding a spawned process, and let its kill resolve in any later world. The launcher has
  a user-data directory, which exists after the launch. If no \<^verbatim>\<open>userDataDir\<close> option
  was given, the directory and everything below it are gone after the kill; if the option
  was given (a path, the empty string or the boolean \<open>false\<close>), the kill leaves every
  directory and file in place, whoever made the directory.
\<close>

lemma kill_removes_dir_by_option:
  assumes "Launcher_constructor opt = Inr this0"
    and "Launcher_launch E this0 wa = (r, inst, w)"
    and "chrome inst = Some c"
    and "kill E inst wk = (Resolved (), inst', w')"
  shows "\<exists>d. userDataDir inst = Some d \<and> d \<in> set (dirs w)
     \<and> (opt_userDataDir opt = None \<longrightarrow>
          (\<forall>p. under d p \<longrightarrow> p \<notin> set (dirs w') \<and> files w' p = None))
     \<and> (opt_userDataDir opt \<noteq> None \<longrightarrow> dirs w' = dirs wk \<and> files w' = files wk)
     \<and> (d \<in> set (dirs wk) \<longrightarrow> (d \<notin> set (dirs w') \<longleftrightarrow> opt_userDataDir opt = None))"
proof -
  from Launcher_launch_spawned [OF assms(1,2,3)]
  obtain d where d: "userDataDir inst = Some d" "d \<in> set (dirs w)" and o: "opts inst = opt"
    by blast
  from kill_resolved [OF assms(3,4)]
  obtain w1 where w1: "dirs w1 = dirs wk" "files w1 = files wk"
    and dt: "destroyTmp (inst\<lparr>chrome := None\<rparr>) w1 = (inst', w')"
    by blast
  have own: "opt_userDataDir opt = None \<longrightarrow>
          (\<forall>p. under d p \<longrightarrow> p \<notin> set (dirs w') \<and> files w' p = None)"
    using destroyTmp_generated [of "inst\<lparr>chrome := None\<rparr>" d w1 inst' w'] d o dt by simp
  have sup: "opt_userDataDir opt \<noteq> None \<longrightarrow> dirs w' = dirs wk \<and> files w' = files wk"
    using destroyTmp_supplied [of "inst\<lparr>chrome := None\<rparr>" w1] o dt w1 by auto
  have "under d d" by (simp add: under_def)
  with own sup
  have iff: "d \<in> set (dirs wk) \<longrightarrow> (d \<notin> set (dirs w') \<longleftrightarrow> opt_userDataDir opt = None)"
    by auto
  show ?thesis
    apply (rule exI [of _ d])
    apply (intro conjI d own sup iff)
    done
qed

text \<open>
  Who made the directory is another matter: \<^verbatim>\<open>prepare\<close> makes a temporary directory
  whenever the launcher has no directory yet, that is also under the option \<open>false\<close>
  and under the empty string.
\<close>

lemma prepare_makes_tmp_dir:
  assumes "\<not> truthy_str (userDataDir this)" and "prepare E this w = (Inr (), this', w')"
  shows "\<exists>n. userDataDir this' = Some (tmpDirName E n)
           \<and> MkTmp (tmpDirName E n) \<in> set (trace w')"
proof -
  have sb: "\<And>x t v. x \<in> set (trace v) \<Longrightarrow> x \<in> set (trace (setBrowserPrefs E t v))"
    by (auto simp: setBrowserPrefs_def Let_def writeFileSync_def readFileSync_def emit_def
        split: option.splits prod.splits sum.splits)
  have os: "\<And>x d name v r v'. openSync d name v = (r, v') \<Longrightarrow> x \<in> set (trace v)
             \<Longrightarrow> x \<in> set (trace v')"
    by (auto simp: openSync_def Let_def emit_def split: if_splits)
  obtain d w1 where m: "makeTmpDir E w = (d, w1)" by (cases "makeTmpDir E w")
  then have d: "d = tmpDirName E (now w)" "MkTmp d \<in> set (trace w1)"
    by (auto simp: makeTmpDir_def Let_def emit_def)
  obtain r1 w2 where o1: "openSync d ''chrome-out.log'' w1 = (r1, w2)"
    by (cases "openSync d ''chrome-out.log'' w1")
  obtain r2 w3 where o2: "openSync d ''chrome-err.log'' w2 = (r2, w3)"
    by (cases "openSync d ''chrome-err.log'' w2")
  have t3: "MkTmp d \<in> set (trace w3)" using os [OF o2 os [OF o1 d(2)]] .
  from assms m o1 o2 have "userDataDir this' = Some d
      \<and> (\<exists>t. w' = setBrowserPrefs E t w3)"
    by (auto simp: prepare_def Let_def split: if_splits sum.splits)
  with t3 sb d(1) show ?thesis by blast
qed

subsection \<open>The facade, one step at a time\<close>

lemma launch_step:
  assumes "Launcher_constructor (opt\<lparr>opt_handleSIGINT := Some h\<rparr>) = Inr inst"
    and "h = defaults (opt_handleSIGINT opt) True"
    and "Launcher_launch E inst (world s) = (r, inst1, w1)"
  shows "launch E opt s =
    (case r of
       Rejected e \<Rightarrow> Rejected e
     | Unsettled \<Rightarrow> Unsettled
     | Resolved u \<Rightarrow> Resolved \<lparr>lc_pid = pid inst1, lc_port = port inst1,
                               lc_process = chrome inst1, lc_kill = nextId s\<rparr>,
     s\<lparr>instances := set_add (nextId s) (instances s),
       sigintListeners := (if h \<and> instances s = [] then sigintListeners s + 1
                           else sigintListeners s),
       objects := (objects s)(nextId s := inst1),
       nextId := nextId s + 1,
       world := w1\<rparr>)"
  using assms
  by (cases r) (simp_all add: launch_def Let_def process_on_def)

lemma handle_kill_step:
  assumes "kill E (objects s i) (world s) = (r, inst1, w1)"
  shows "handle_kill E i s =
    (r, s\<lparr>instances := removeAll i (instances s),
          sigintListeners := (if removeAll i (instances s) = [] then sigintListeners s - 1
                              else sigintListeners s),
          objects := (objects s)(i := inst1),
          world := w1\<rparr>)"
  using assms
  by (simp add: handle_kill_def Let_def set_delete_def process_removeListener_def)

lemma killAll_single:
  assumes "instances s = [i]" and "kill E (objects s i) (world s) = (r, inst1, w1)"
  shows "killAll E s =
    (case r of
       Resolved u \<Rightarrow>
         (Resolved [], s\<lparr>objects := (objects s)(i := inst1), world := w1, instances := []\<rparr>)
     | Rejected e \<Rightarrow> (Resolved [e], s\<lparr>objects := (objects s)(i := inst1), world := w1\<rparr>)
     | Unsettled \<Rightarrow> (Unsettled, s\<lparr>objects := (objects s)(i := inst1), world := w1\<rparr>))"
  using assms
  by (cases r) (simp_all add: killAll_def set_delete_def push_def)

lemma killAll_empty: "instances s = [] \<Longrightarrow> killAll E s = (Resolved [], s)"
  by (simp add: killAll_def)

subsection \<open>Evaluation on the concrete environment\<close>

lemmas model_defs =
  Launcher_constructor_def Launcher_launch_def launch_new_chrome_def prepare_def
  spawnProcess_def spawnPromise_def waitUntilReady_def isDebuggerReady_def flags_def
  setBrowserPrefs_def kill_def terminate_def raised_def destroyTmp_def getFirstInstallation_def
  makeTmpDir_def openSync_def closeSync_def writeFileSync_def readFileSync_def rm_def delay_def
  getRandomPort_def spawn_def emit_def now_def in_dir_def under_def fresh_fd_def
  defaults_def truthy_str_def truthy_num_def show_num_def show_str_def one_or_many_def push_def
  isWsl_def isWindows_def SUPPORTED_PLATFORMS_def Let_def

lemmas fixture_defs =
  env0_def opts0_def opts_data_def opts_false_def opts_empty_def opts_once_def
  blank_def inst0_def w0_def is_Spawn_def

lemma string_of_nat_4242: "string_of_nat 4242 = ''4242''"
  by (simp add: string_of_nat.simps digit_char_def)

lemma string_of_nat_9333: "string_of_nat 9333 = ''9333''"
  by (simp add: string_of_nat.simps digit_char_def)

lemmas eval_simps = model_defs fixture_defs poll.simps string_of_nat_4242 string_of_nat_9333

lemma constructor_inst0:
  "Launcher_constructor (opts0\<lparr>opt_handleSIGINT := Some True\<rparr>) = Inr inst0"
  by (simp add: inst0_def blank_def Launcher_constructor_def Let_def opts0_def)

lemma Launcher_launch_inst0:
  "Launcher_launch (env0\<lparr>process_kill := k\<rparr>) inst0 w0 = (Resolved (), L1, W1)"
  by (simp add: eval_simps L1_def W1_def)

lemma launch_default:
  "launch (env0\<lparr>process_kill := k\<rparr>) opts0 s0 = (Resolved h1, S1)"
proof -
  have "Launcher_launch (env0\<lparr>process_kill := k\<rparr>) inst0 (world s0) = (Resolved (), L1, W1)"
    using Launcher_launch_inst0 by (simp add: s0_def)
  from launch_step [OF constructor_inst0 _ this] show ?thesis
    by (simp add: opts0_def defaults_def s0_def S1_def h1_def L1_def set_add_def)
qed

lemma kill_L1: "kill env0 L1 W1 =
    (Resolved (), L1\<lparr>chrome := None, outFile := None, errFile := None\<rparr>,
     W1\<lparr>dirs := [''/data''], files := (\<lambda>p. None), openFds := [],
        trace := trace W1 @ [Signal (- 4242), Close 3, Close 4, Rm ''/tmp/lh'']\<rparr>)"
  by (simp add: eval_simps L1_def W1_def fun_eq_iff)

lemma kill_L1_refused: "kill env_unkillable L1 W1 =
    (Rejected (Error ''Chrome could not be killed kill ESRCH''), L1,
     W1\<lparr>trace := trace W1 @ [Signal (- 4242)]\<rparr>)"
  by (simp add: eval_simps env_unkillable_def L1_def W1_def)

lemma launch_data: "launch env0 opts_data s0 = (Resolved h1, Sd)"
proof -
  have c: "Launcher_constructor (opts_data\<lparr>opt_handleSIGINT := Some True\<rparr>)
      = Inr (blank\<lparr>opts := opts_data\<lparr>opt_handleSIGINT := Some True\<rparr>,
                 userDataDir := Some ''/data''\<rparr>)"
    by (simp add: blank_def Launcher_constructor_def Let_def opts0_def opts_data_def)
  have "Launcher_launch env0 (blank\<lparr>opts := opts_data\<lparr>opt_handleSIGINT := Some True\<rparr>,
                 userDataDir := Some ''/data''\<rparr>) (world s0) = (Resolved (), Ld, Wd)"
    by (simp add: eval_simps s0_def Ld_def Wd_def)
  from launch_step [OF c _ this] show ?thesis
    by (simp add: opts0_def opts_data_def defaults_def s0_def Sd_def h1_def Ld_def set_add_def)
qed

lemma kill_Ld: "kill env0 Ld Wd =
    (Resolved (), Ld\<lparr>chrome := None\<rparr>, Wd\<lparr>trace := trace Wd @ [Signal (- 4242)]\<rparr>)"
  by (simp add: eval_simps Ld_def Wd_def)

lemma launch_false: "launch env0 opts_false s0 = (Resolved h1, Sf)"
proof -
  have c: "Launcher_constructor (opts_false\<lparr>opt_handleSIGINT := Some True\<rparr>)
      = Inr (blank\<lparr>opts := opts_false\<lparr>opt_handleSIGINT := Some True\<rparr>,
                 useDefaultProfile := True\<rparr>)"
    by (simp add: blank_def Launcher_constructor_def Let_def opts0_def opts_false_def)
  have "Launcher_launch env0 (blank\<lparr>opts := opts_false\<lparr>opt_handleSIGINT := Some True\<rparr>,
                 useDefaultProfile := True\<rparr>) (world s0) = (Resolved (), Lf, Wf)"
    by (simp add: eval_simps s0_def Lf_def Wf_def)
  from launch_step [OF c _ this] show ?thesis
    by (simp add: opts0_def opts_false_def defaults_def s0_def Sf_def h1_def Lf_def set_add_def)
qed

lemma kill_Lf: "kill env0 Lf Wf =
    (Resolved (), Lf\<lparr>chrome := None\<rparr>, Wf\<lparr>trace := trace Wf @ [Signal (- 4242)]\<rparr>)"
  by (simp add: eval_simps Lf_def Wf_def)

lemma launch_empty: "launch env0 opts_empty s0 = (Resolved h1, Se)"
proof -
  have c: "Launcher_constructor (opts_empty\<lparr>opt_handleSIGINT := Some True\<rparr>)
      = Inr (blank\<lparr>opts := opts_empty\<lparr>opt_handleSIGINT := Some True\<rparr>,
                 userDataDir := Some []\<rparr>)"
    by (simp add: blank_def Launcher_constructor_def Let_def opts0_def opts_empty_def)
  have "Launcher_launch env0 (blank\<lparr>opts := opts_empty\<lparr>opt_handleSIGINT := Some True\<rparr>,
                 userDataDir := Some []\<rparr>) (world s0) = (Resolved (), Le, W1)"
    by (simp add: eval_simps s0_def Le_def L1_def W1_def)
  from launch_step [OF c _ this] show ?thesis
    by (simp add: opts0_def opts_empty_def defaults_def s0_def Se_def h1_def Le_def L1_def
        set_add_def)
qed

lemma kill_Le: "kill env0 Le W1 =
    (Resolved (), Le\<lparr>chrome := None\<rparr>, W1\<lparr>trace := trace W1 @ [Signal (- 4242)]\<rparr>)"
  by (simp add: eval_simps Le_def L1_def W1_def)

lemma launch_nospawn: "launch env_nospawn opts_once s0 = (Rejected ConnectionError, Sn)"
proof -
  have c: "Launcher_constructor (opts_once\<lparr>opt_handleSIGINT := Some True\<rparr>)
      = Inr (blank\<lparr>opts := opts_once\<lparr>opt_handleSIGINT := Some True\<rparr>,
                 maxConnectionRetries := 0\<rparr>)"
    by (simp add: blank_def Launcher_constructor_def Let_def opts0_def opts_once_def
        defaults_def)
  have "Launcher_launch env_nospawn (blank\<lparr>opts := opts_once\<lparr>opt_handleSIGINT := Some True\<rparr>,
                 maxConnectionRetries := 0\<rparr>) (world s0) = (Rejected ConnectionError, Ln, Wn)"
    by (simp add: eval_simps env_nospawn_def s0_def Ln_def Wn_def)
  from launch_step [OF c _ this] show ?thesis
    by (simp add: opts0_def opts_once_def defaults_def s0_def Sn_def Ln_def set_add_def)
qed

lemma kill_Ln: "kill env_nospawn Ln Wn = (Unsettled, Ln, Wn)"
  by (simp add: eval_simps env_nospawn_def Ln_def Wn_def)

text \<open>The hypotheses of the general lemmas hold on the concrete host.\<close>

lemma kill_removes_dir_by_option_example:
  "\<exists>inst' w'. Launcher_launch env0 inst0 w0 = (Resolved (), L1, W1)
    \<and> kill env0 L1 W1 = (Resolved (), inst', w')
    \<and> userDataDir L1 = Some ''/tmp/lh''
    \<and> ''/tmp/lh'' \<in> set (dirs W1) \<and> ''/tmp/lh'' \<notin> set (dirs w')
    \<and> files w' ''/tmp/lh/chrome.pid'' = None"
proof -
  have l: "Launcher_launch env0 inst0 w0 = (Resolved (), L1, W1)"
    using Launcher_launch_inst0 [of "\<lambda>n. None"] by (simp add: env0_def)
  have c: "chrome L1 = Some \<lparr>cpid = Some 4242\<rparr>" and u: "userDataDir L1 = Some ''/tmp/lh''"
    by (simp_all add: L1_def)
  from kill_removes_dir_by_option [OF constructor_inst0 l c kill_L1] u
  have "''/tmp/lh'' \<in> set (dirs W1)"
    and "\<forall>p. under ''/tmp/lh'' p \<longrightarrow>
           p \<notin> set (dirs (W1\<lparr>dirs := [''/data''], files := (\<lambda>p. None), openFds := [],
                   trace := trace W1 @ [Signal (- 4242), Close 3, Close 4, Rm ''/tmp/lh'']\<rparr>))
         \<and> files (W1\<lparr>dirs := [''/data''], files := (\<lambda>p. None), openFds := [],
                   trace := trace W1 @ [Signal (- 4242), Close 3, Close 4, Rm ''/tmp/lh'']\<rparr>) p
             = None"
    by (simp_all add: opts0_def)
  then show ?thesis using l kill_L1 u by simp
qed

lemma killAll_removes_exactly_killed_example:
  "\<exists>s'. killAll env_partial s_two
       = (Resolved [Error ''Chrome could not be killed kill EPERM''], s')
     \<and> instances s' = [0] \<and> objects s' 0 = objects s_two 0 \<and> chrome (objects s' 1) = None"
  using killAll_removes_exactly_killed [of s_two env_partial]
  by (auto simp: kill_fails_def kill_err_def kill_pending_def rejection_def kill_def
      terminate_def raised_def destroyTmp_def isWindows_def
      Let_def fixture_defs env_partial_def s_two_def Launcher_constructor_def defaults_def
      one_or_many_def)

subsection \<open>Where the code leaves the claims\<close>

text \<open>An option given for the user-data directory keeps \<^verbatim>\<open>destroyTmp\<close> from closing the
  log files: the early return comes before the two \<^verbatim>\<open>closeSync\<close> calls.\<close>

lemma kill_supplied_dir_keeps_fds:
  assumes "opt_userDataDir (opts this) \<noteq> None" and "kill E this w = (r, this', w')"
  shows "openFds w' = openFds w \<and> outFile this' = outFile this \<and> errFile this' = errFile this"
proof (cases "chrome this")
  case None
  then show ?thesis using assms(2) by (simp add: kill_None)
next
  case (Some c)
  obtain m w1 where t: "terminate E c w = (m, w1)" by (cases "terminate E c w")
  have d: "destroyTmp (this\<lparr>chrome := None\<rparr>) w1 = (this\<lparr>chrome := None\<rparr>, w1)"
    using assms(1) by (simp add: destroyTmp_supplied)
  from terminate_frame [OF t] have "openFds w1 = openFds w" by simp
  then show ?thesis
    using assms(2) Some t d by (cases m) (auto simp: kill_Some)
qed

text \<open>
  Claim C1, at a failing input. One launch with no options installs the listener and
  registers instance 0. The handle's \<^verbatim>\<open>kill\<close> empties the registry and removes the
  listener. \<^verbatim>\<open>killAll\<close> from the same state kills the instance and empties the registry
  as well, but the listener stays installed.
\<close>

theorem killAll_leaves_sigint_listener:
  "(case launch env0 opts0 s0 of (r1, s1) \<Rightarrow>
      instances s1 = [0] \<and> sigintListeners s1 = 1
    \<and> (case handle_kill env0 0 s1 of (r2, s2) \<Rightarrow>
          r2 = Resolved () \<and> instances s2 = [] \<and> sigintListeners s2 = 0)
    \<and> (case killAll env0 s1 of (r3, s3) \<Rightarrow>
          r3 = Resolved [] \<and> instances s3 = [] \<and> chrome (objects s3 0) = None
        \<and> sigintListeners s3 = 1))"
proof -
  have l: "launch env0 opts0 s0 = (Resolved h1, S1)"
    using launch_default [of "\<lambda>n. None"] by (simp add: env0_def)
  have k: "kill env0 (objects S1 0) (world S1) =
    (Resolved (), L1\<lparr>chrome := None, outFile := None, errFile := None\<rparr>,
     W1\<lparr>dirs := [''/data''], files := (\<lambda>p. None), openFds := [],
        trace := trace W1 @ [Signal (- 4242), Close 3, Close 4, Rm ''/tmp/lh'']\<rparr>)"
    using kill_L1 by (simp add: S1_def)
  have i: "instances S1 = [0]" by (simp add: S1_def)
  show ?thesis
    apply (simp only: l split_conv)
    apply (simp only: handle_kill_step [OF k] killAll_single [OF i k] split_conv outcome.case)
    apply (simp add: S1_def)
    done
qed

text \<open>
  Claim C2, at a failing input. A launched instance whose termination request raises:
  through \<^verbatim>\<open>killAll\<close> the error is returned and the instance stays registered; through
  the handle's \<^verbatim>\<open>kill\<close> the promise rejects with the same error, the instance still
  holds its child process, and it is no longer registered, so the \<^verbatim>\<open>killAll\<close> that
  follows returns no error and makes no termination request.
\<close>

theorem handle_kill_failure_unregisters:
  "(case launch env_unkillable opts0 s0 of (r1, s1) \<Rightarrow>
      instances s1 = [0]
    \<and> (case killAll env_unkillable s1 of (r2, s2) \<Rightarrow>
          r2 = Resolved [Error ''Chrome could not be killed kill ESRCH''] \<and> instances s2 = [0])
    \<and> (case handle_kill env_unkillable 0 s1 of (r3, s3) \<Rightarrow>
          r3 = Rejected (Error ''Chrome could not be killed kill ESRCH'')
        \<and> chrome (objects s3 0) = Some \<lparr>cpid = Some 4242\<rparr>
        \<and> instances s3 = []
        \<and> (case killAll env_unkillable s3 of (r4, s4) \<Rightarrow>
              r4 = Resolved [] \<and> trace (world s4) = trace (world s3)
            \<and> chrome (objects s4 0) = Some \<lparr>cpid = Some 4242\<rparr>)))"
proof -
  have l: "launch env_unkillable opts0 s0 = (Resolved h1, S1)"
    using launch_default [of "\<lambda>n. Some ''kill ESRCH''"] by (simp add: env_unkillable_def)
  have k: "kill env_unkillable (objects S1 0) (world S1) =
    (Rejected (Error ''Chrome could not be killed kill ESRCH''), L1,
     W1\<lparr>trace := trace W1 @ [Signal (- 4242)]\<rparr>)"
    using kill_L1_refused by (simp add: S1_def)
  have i: "instances S1 = [0]" by (simp add: S1_def)
  show ?thesis
    apply (simp only: l split_conv)
    apply (simp only: handle_kill_step [OF k] killAll_single [OF i k] split_conv outcome.case)
    apply (simp add: S1_def L1_def killAll_empty)
    done
qed

text \<open>
  Claim C8, at a failing input. A launch into the caller-supplied directory
  \<^verbatim>\<open>/data\<close> opens the two log files as descriptors 3 and 4. The kill resolves and the
  child is gone, but both descriptors are still open and still recorded in the launcher.
  After a launch with no directory option the same kill closes both.
\<close>

theorem kill_leaves_log_files_open:
  "(case launch env0 opts_data s0 of (r1, s1) \<Rightarrow>
      outFile (objects s1 0) = Some 3 \<and> errFile (objects s1 0) = Some 4
    \<and> openFds (world s1) = [3, 4]
    \<and> (case handle_kill env0 0 s1 of (r2, s2) \<Rightarrow>
          r2 = Resolved () \<and> chrome (objects s2 0) = None
        \<and> openFds (world s2) = [3, 4]
        \<and> outFile (objects s2 0) = Some 3 \<and> errFile (objects s2 0) = Some 4
        \<and> dirs (world s2) = [''/data'']))
   \<and> (case launch env0 opts0 s0 of (r1, s1) \<Rightarrow>
        openFds (world s1) = [3, 4]
      \<and> (case handle_kill env0 0 s1 of (r2, s2) \<Rightarrow>
            r2 = Resolved () \<and> openFds (world s2) = [] \<and> outFile (objects s2 0) = None
          \<and> errFile (objects s2 0) = None))"
proof -
  have l: "launch env0 opts0 s0 = (Resolved h1, S1)"
    using launch_default [of "\<lambda>n. None"] by (simp add: env0_def)
  have k: "kill env0 (objects S1 0) (world S1) =
    (Resolved (), L1\<lparr>chrome := None, outFile := None, errFile := None\<rparr>,
     W1\<lparr>dirs := [''/data''], files := (\<lambda>p. None), openFds := [],
        trace := trace W1 @ [Signal (- 4242), Close 3, Close 4, Rm ''/tmp/lh'']\<rparr>)"
    using kill_L1 by (simp add: S1_def)
  have kd: "kill env0 (objects Sd 0) (world Sd) =
    (Resolved (), Ld\<lparr>chrome := None\<rparr>, Wd\<lparr>trace := trace Wd @ [Signal (- 4242)]\<rparr>)"
    using kill_Ld by (simp add: Sd_def)
  show ?thesis
    apply (simp only: l launch_data split_conv)
    apply (simp only: handle_kill_step [OF k] handle_kill_step [OF kd] split_conv)
    apply (simp add: S1_def Sd_def Ld_def Wd_def W1_def)
    done
qed


text \<open>
  Claim C4, at a failing input. On a host where no process can be started and nothing
  listens (the program handles uncaught exceptions), a launch without retries rejects with
  the connection error and leaves instance 0 registered, holding a child without a pid.
  On this registry \<^verbatim>\<open>killAll\<close> makes no termination request and never settles: it
  returns no list, and the instance stays registered with its child.
\<close>

theorem killAll_pending_on_child_without_pid:
  "(case launch env_nospawn opts_once s0 of (r1, s1) \<Rightarrow>
      r1 = Rejected ConnectionError \<and> instances s1 = [0]
    \<and> chrome (objects s1 0) = Some \<lparr>cpid = None\<rparr>
    \<and> (case killAll env_nospawn s1 of (r2, s2) \<Rightarrow>
          r2 = Unsettled \<and> instances s2 = [0]
        \<and> chrome (objects s2 0) = Some \<lparr>cpid = None\<rparr>
        \<and> trace (world s2) = trace (world s1)))"
proof -
  have k: "kill env_nospawn (objects Sn 0) (world Sn) = (Unsettled, Ln, Wn)"
    using kill_Ln by (simp add: Sn_def)
  have i: "instances Sn = [0]" by (simp add: Sn_def)
  show ?thesis
    apply (simp only: launch_nospawn split_conv)
    apply (simp only: killAll_single [OF i k] split_conv outcome.case)
    apply (simp add: Sn_def Ln_def)
    done
qed

text \<open>
  Claim C7, at two failing inputs. Under the option \<open>false\<close> (default profile) and
  under the empty path the launcher has no directory, so \<^verbatim>\<open>prepare\<close> makes the
  temporary directory \<^verbatim>\<open>/tmp/lh\<close> itself; it did not exist before the launch. The kill
  resolves and the child is gone, but the directory and the pid file in it are still
  there. After a launch with no directory option the same kill removes the directory.
\<close>

theorem kill_leaves_directory_it_created:
  "''/tmp/lh'' \<notin> set (dirs (world s0))
   \<and> (case launch env0 opts_false s0 of (r1, s1) \<Rightarrow>
        r1 = Resolved h1 \<and> userDataDir (objects s1 0) = Some ''/tmp/lh''
      \<and> MkTmp ''/tmp/lh'' \<in> set (trace (world s1)) \<and> ''/tmp/lh'' \<in> set (dirs (world s1))
      \<and> (case handle_kill env0 0 s1 of (r2, s2) \<Rightarrow>
            r2 = Resolved () \<and> chrome (objects s2 0) = None
          \<and> ''/tmp/lh'' \<in> set (dirs (world s2))
          \<and> files (world s2) ''/tmp/lh/chrome.pid'' = Some ''4242''))
   \<and> (case launch env0 opts_empty s0 of (r1, s1) \<Rightarrow>
        r1 = Resolved h1 \<and> userDataDir (objects s1 0) = Some ''/tmp/lh''
      \<and> MkTmp ''/tmp/lh'' \<in> set (trace (world s1)) \<and> ''/tmp/lh'' \<in> set (dirs (world s1))
      \<and> (case handle_kill env0 0 s1 of (r2, s2) \<Rightarrow>
            r2 = Resolved () \<and> chrome (objects s2 0) = None
          \<and> ''/tmp/lh'' \<in> set (dirs (world s2))
          \<and> files (world s2) ''/tmp/lh/chrome.pid'' = Some ''4242''))
   \<and> (case launch env0 opts0 s0 of (r1, s1) \<Rightarrow>
        r1 = Resolved h1 \<and> userDataDir (objects s1 0) = Some ''/tmp/lh''
      \<and> MkTmp ''/tmp/lh'' \<in> set (trace (world s1)) \<and> ''/tmp/lh'' \<in> set (dirs (world s1))
      \<and> (case handle_kill env0 0 s1 of (r2, s2) \<Rightarrow>
            r2 = Resolved () \<and> chrome (objects s2 0) = None
          \<and> ''/tmp/lh'' \<notin> set (dirs (world s2))
          \<and> files (world s2) ''/tmp/lh/chrome.pid'' = None))"
proof -
  have l: "launch env0 opts0 s0 = (Resolved h1, S1)"
    using launch_default [of "\<lambda>n. None"] by (simp add: env0_def)
  have k: "kill env0 (objects S1 0) (world S1) =
    (Resolved (), L1\<lparr>chrome := None, outFile := None, errFile := None\<rparr>,
     W1\<lparr>dirs := [''/data''], files := (\<lambda>p. None), openFds := [],
        trace := trace W1 @ [Signal (- 4242), Close 3, Close 4, Rm ''/tmp/lh'']\<rparr>)"
    using kill_L1 by (simp add: S1_def)
  have kf: "kill env0 (objects Sf 0) (world Sf) =
    (Resolved (), Lf\<lparr>chrome := None\<rparr>, Wf\<lparr>trace := trace Wf @ [Signal (- 4242)]\<rparr>)"
    using kill_Lf by (simp add: Sf_def)
  have ke: "kill env0 (objects Se 0) (world Se) =
    (Resolved (), Le\<lparr>chrome := None\<rparr>, W1\<lparr>trace := trace W1 @ [Signal (- 4242)]\<rparr>)"
    using kill_Le by (simp add: Se_def)
  show ?thesis
    apply (simp only: l launch_false launch_empty split_conv)
    apply (simp only: handle_kill_step [OF k] handle_kill_step [OF kf] handle_kill_step [OF ke]
        split_conv)
    apply (simp add: s0_def w0_def S1_def Sf_def Se_def L1_def Lf_def Le_def W1_def Wf_def)
    done
qed

end
